theory Spec2Isabelle
  imports Complex_Main
begin

section \<open>The editing workspace of App.tsx\<close>

text \<open>
  A shallow embedding of the component \<^verbatim>\<open>App\<close> of \<^verbatim>\<open>src/App.tsx\<close>. The component's
  \<^verbatim>\<open>useState\<close> cells are the fields of one record, every handler is a function from
  the state before the event to the state after it, and a handler that awaits a promise
  is split at the \<^verbatim>\<open>await\<close>: the part before it leaves a pending call in the state,
  the part after it is a function of the outcome of the call.

  JavaScript numbers are modelled as real numbers: rounding of IEEE doubles is not
  part of the model. \<^verbatim>\<open>null\<close> and \<^verbatim>\<open>undefined\<close> are both \<open>None\<close>.
\<close>

subsection \<open>types.ts\<close>

datatype AppMode =
    IDLE | GENERATING | EDITING | UPSCALING | UPSCALING_FREE | BATCH_PROCESSING
  | CROPPING | ZOOMING | REMOVING_WATERMARK | MAGIC_HAND | ERROR

text \<open>\<^verbatim>\<open>'Free' | 'Pro 4K'\<close>\<close>

datatype UpscaleType = Free | Pro_4K

text \<open>\<^verbatim>\<open>'idle' | 'processing' | 'done' | 'error'\<close>\<close>

datatype BatchStatus = Status_idle | Status_processing | Status_done | Status_error

record ImageState =
  url :: "string option"
  base64 :: "string option"
  beforeUrl :: "string option"
  resolution :: string
  isUpscaled :: bool
  upscaleType :: "UpscaleType option"

text \<open>
  The fields of the other interfaces carry a prefix, since two records cannot share a
  field name: \<open>b_\<close> for \<^verbatim>\<open>BatchImage\<close>, \<open>r_\<close> for \<^verbatim>\<open>ResultItem\<close>, \<open>h_\<close> for
  \<^verbatim>\<open>HistoryItem\<close>. \<^verbatim>\<open>BatchImage.isCropping\<close> is never read or written and is left out.
\<close>

record BatchImage =
  b_id :: string
  b_url :: string
  b_base64 :: string
  b_status :: BatchStatus
  b_resolution :: string
  b_upscaleType :: "UpscaleType option"
  b_error :: "string option"

record ResultItem =
  r_id :: string
  r_url :: string
  r_base64 :: string
  r_resolution :: string
  r_upscaleType :: string
  r_timestamp :: nat

text \<open>\<^verbatim>\<open>HistoryItem.id\<close> is \<^verbatim>\<open>Date.now().toString()\<close>; the number itself stands for it.\<close>

record HistoryItem =
  h_id :: nat
  h_url :: string
  h_prompt :: string
  h_timestamp :: nat

subsection \<open>The state of the component\<close>

text \<open>\<^verbatim>\<open>'1:1' | '16:9' | '9:16' | 'Free'\<close>\<close>

datatype CropRatio = Ratio_1_1 | Ratio_16_9 | Ratio_9_16 | Ratio_Free

text \<open>The values \<^verbatim>\<open>activeHandle\<close> is ever set to: \<^verbatim>\<open>'center'\<close> and the four corners.\<close>

datatype Handle = H_center | H_tl | H_tr | H_bl | H_br

text \<open>\<^verbatim>\<open>{ x, y }\<close> and \<^verbatim>\<open>{ w, h }\<close>, in percent of the crop container.\<close>

record Point =
  px :: real
  py :: real

record Size =
  sw :: real
  sh :: real

text \<open>\<^verbatim>\<open>interface CropState { pos; size; ratio }\<close>\<close>

record CropState =
  cs_pos :: Point
  cs_size :: Size
  cs_ratio :: CropRatio

text \<open>\<^verbatim>\<open>cropData: { id, base64 } | null\<close>\<close>

record CropData =
  cd_id :: string
  cd_base64 :: string

text \<open>The source rectangle of \<^verbatim>\<open>drawImage\<close>: \<^verbatim>\<open>x\<close>, \<^verbatim>\<open>y\<close>, \<^verbatim>\<open>width\<close>, \<^verbatim>\<open>height\<close>.\<close>

record PixelRect =
  rect_x :: real
  rect_y :: real
  rect_width :: real
  rect_height :: real

text \<open>
  What the \<^verbatim>\<open>onload\<close> callback of \<^verbatim>\<open>executeCrop\<close> closes over: \<^verbatim>\<open>cropData\<close>,
  \<^verbatim>\<open>cropPos\<close>, \<^verbatim>\<open>cropSize\<close>, \<^verbatim>\<open>currentImage.url\<close> and \<^verbatim>\<open>results\<close> of the render
  in which \<^verbatim>\<open>executeCrop\<close> was called.
\<close>

record CropClosure =
  cc_cropData :: CropData
  cc_cropPos :: Point
  cc_cropSize :: Size
  cc_previousUrl :: "string option"
  cc_results :: "ResultItem list"

text \<open>The value a rejected promise throws: only \<^verbatim>\<open>err.message\<close> is ever read.\<close>

datatype JsError = JsError (message: "string option")

text \<open>
  A promise a handler is waiting for, with the values its continuation closes over
  (the \<^verbatim>\<open>currentImage\<close> and \<^verbatim>\<open>prompt\<close> of the render in which the handler was
  called; \<^verbatim>\<open>previousUrl\<close> is the \<open>url\<close> of that image).
  \<^item> \<open>GenerateImage_call\<close>: \<^verbatim>\<open>handleGenerate\<close> at \<^verbatim>\<open>GeminiService.generateImage\<close>;
  \<^item> \<open>EditImage_call\<close>: \<^verbatim>\<open>handleEdit\<close> at \<^verbatim>\<open>GeminiService.editImage\<close>;
  \<^item> \<open>Watermark_call\<close>: \<^verbatim>\<open>handleRemoveWatermark\<close> at \<^verbatim>\<open>GeminiService.editImage\<close>;
  \<^item> \<open>EditWithMask_call\<close>: \<^verbatim>\<open>castMagicHand\<close> at \<^verbatim>\<open>GeminiService.editWithMask\<close>;
  \<^item> \<open>HasSelectedApiKey_call\<close>, \<open>OpenSelectKey_call\<close>: \<^verbatim>\<open>handleUpscale4K\<close> at the two
    calls of \<^verbatim>\<open>window.aistudio\<close> before the upscale;
  \<^item> \<open>UpscaleTo4K_call\<close>: \<^verbatim>\<open>handleUpscale4K\<close> at \<^verbatim>\<open>GeminiService.upscaleTo4K\<close>;
  \<^item> \<open>OpenSelectKey_in_catch_call\<close>: \<^verbatim>\<open>handleUpscale4K\<close> at the
    \<^verbatim>\<open>openSelectKey\<close> of its \<^verbatim>\<open>catch\<close> block, with the caught error;
  \<^item> \<open>UpscaleFree_call\<close>: \<^verbatim>\<open>handleBatchUpscale\<close> at \<^verbatim>\<open>GeminiService.upscaleFree\<close>,
    with the local array \<^verbatim>\<open>updatedQueue\<close> (the addresses of its objects) and the loop
    index \<^verbatim>\<open>i\<close>;
  \<^item> \<open>ReadFile_call\<close>: a \<^verbatim>\<open>FileReader\<close> of \<^verbatim>\<open>handleFileUpload\<close> before
    \<^verbatim>\<open>onloadend\<close>;
  \<^item> \<open>ImageLoad_call\<close>: the \<^verbatim>\<open>Image\<close> of \<^verbatim>\<open>executeCrop\<close> before \<^verbatim>\<open>onload\<close>.
\<close>

datatype Call =
    GenerateImage_call string
  | EditImage_call ImageState string
  | Watermark_call ImageState
  | EditWithMask_call ImageState
  | HasSelectedApiKey_call ImageState
  | OpenSelectKey_call ImageState
  | UpscaleTo4K_call ImageState
  | OpenSelectKey_in_catch_call JsError
  | UpscaleFree_call "nat list" nat
  | ReadFile_call ImageState
  | ImageLoad_call CropClosure

text \<open>The calls of \<^verbatim>\<open>GeminiService\<close>, the external image service.\<close>

fun is_service_call :: "Call \<Rightarrow> bool" where
  "is_service_call (GenerateImage_call p) = True"
| "is_service_call (EditImage_call ci p) = True"
| "is_service_call (Watermark_call ci) = True"
| "is_service_call (EditWithMask_call ci) = True"
| "is_service_call (UpscaleTo4K_call ci) = True"
| "is_service_call (UpscaleFree_call uq i) = True"
| "is_service_call (HasSelectedApiKey_call ci) = False"
| "is_service_call (OpenSelectKey_call ci) = False"
| "is_service_call (OpenSelectKey_in_catch_call e) = False"
| "is_service_call (ReadFile_call ci) = False"
| "is_service_call (ImageLoad_call c) = False"

text \<open>
  The \<^verbatim>\<open>useState\<close> cells the handlers below read or write, and the pending promises.
  Cells that only drive presentation (\<^verbatim>\<open>copyboard\<close>, \<^verbatim>\<open>showCopyboard\<close>,
  \<^verbatim>\<open>showHistory\<close>, \<^verbatim>\<open>loadingMessage\<close>, \<^verbatim>\<open>comparePosition\<close>, \<^verbatim>\<open>brushSize\<close>,
  \<^verbatim>\<open>isDrawing\<close>) and the pixels of the two canvases are left out.

  The entries of the batch queue are objects that \<^verbatim>\<open>handleBatchUpscale\<close> updates in
  place, through an array that shares them with the array of the state. So the state
  has a store of \<^verbatim>\<open>BatchImage\<close> objects, from addresses to their present values, and
  \<open>batchQueue\<close> is the list of the addresses of the objects of the array. The store is
  total: an address at which no object was created holds \<open>no_entry\<close>, which nothing
  reads.
\<close>

definition no_entry :: BatchImage where
  "no_entry =
     \<lparr>b_id = [], b_url = [], b_base64 = [], b_status = Status_idle, b_resolution = [],
      b_upscaleType = None, b_error = None\<rparr>"

record App =
  mode :: AppMode
  prompt :: string
  currentImage :: ImageState
  objects :: "nat \<Rightarrow> BatchImage"
  batchQueue :: "nat list"
  results :: "ResultItem list"
  history :: "HistoryItem list"
  error :: "string option"
  isComparing :: bool
  cropData :: "CropData option"
  cropRatio :: CropRatio
  cropPos :: Point
  cropSize :: Size
  activeHandle :: "Handle option"
  zoomScale :: real
  zoomTranslate :: Point
  isPanning :: bool
  cropHistory :: "CropState list"
  cropHistoryIndex :: int
  pending :: "Call list"

text \<open>The initial values of the \<^verbatim>\<open>useState\<close> calls (lines 23 to 64).\<close>

definition App_init :: App where
  "App_init =
     \<lparr>mode = IDLE, prompt = [],
      currentImage =
        \<lparr>url = None, base64 = None, beforeUrl = None, resolution = ''1K'',
         isUpscaled = False, upscaleType = None\<rparr>,
      objects = (\<lambda>a. no_entry), batchQueue = [], results = [], history = [], error = None,
      isComparing = False, cropData = None, cropRatio = Ratio_1_1,
      cropPos = \<lparr>px = 50, py = 50\<rparr>, cropSize = \<lparr>sw = 40, sh = 40\<rparr>, activeHandle = None,
      zoomScale = 1, zoomTranslate = \<lparr>px = 0, py = 0\<rparr>, isPanning = False,
      cropHistory = [], cropHistoryIndex = - 1, pending = []\<rparr>"

text \<open>The entries of the queue, as the component renders them.\<close>

definition queue :: "App \<Rightarrow> BatchImage list" where
  "queue s = map (objects s) (batchQueue s)"

text \<open>
  A new object is none of the objects that the array of the state or the array of a
  running loop of \<^verbatim>\<open>handleBatchUpscale\<close> holds; no other value holds a queue entry.
  Which address it gets is immaterial: it is the one after the highest in use.
\<close>

fun call_objects :: "Call \<Rightarrow> nat list" where
  "call_objects (UpscaleFree_call uq i) = uq"
| "call_objects c = []"

definition new_object :: "App \<Rightarrow> nat" where
  "new_object s = Suc (foldr max (batchQueue s @ concat (map call_objects (pending s))) 0)"

text \<open>
  What a handler reads from outside the state: whether \<^verbatim>\<open>window.aistudio\<close> is
  defined, the string \<^verbatim>\<open>Math.random().toString(36).substr(2, 9)\<close> and the number
  \<^verbatim>\<open>Date.now()\<close> at the time it runs.
\<close>

record Env =
  aistudio :: bool
  rid :: string
  now :: nat

subsection \<open>JavaScript values\<close>

text \<open>Truthiness of a \<^verbatim>\<open>string | null\<close>: \<^verbatim>\<open>null\<close> and the empty string are falsy.\<close>

definition truthy :: "string option \<Rightarrow> bool" where
  "truthy v = (case v of None \<Rightarrow> False | Some t \<Rightarrow> t \<noteq> [])"

text \<open>\<^verbatim>\<open>v || d\<close> on strings.\<close>

definition or_else :: "string option \<Rightarrow> string \<Rightarrow> string" where
  "or_else v d = (case v of None \<Rightarrow> d | Some t \<Rightarrow> if t = [] then d else t)"

text \<open>
  \<^verbatim>\<open>String.prototype.trim\<close>. A character of a string stands for a code unit below
  256; the white space and line terminators of ECMAScript among these are the
  characters 9 to 13, the space and the no-break space 160.
\<close>

definition is_space :: "char \<Rightarrow> bool" where
  "is_space c =
     (c \<in> set [CHR 0x09, CHR 0x0A, CHR 0x0B, CHR 0x0C, CHR 0x0D, CHR 0x20, CHR 0xA0])"

definition trim :: "string \<Rightarrow> string" where
  "trim t = rev (dropWhile is_space (rev (dropWhile is_space t)))"

text \<open>\<^verbatim>\<open>xs[i]\<close>: \<^verbatim>\<open>undefined\<close> out of range.\<close>

definition js_index :: "'a list \<Rightarrow> int \<Rightarrow> 'a option" where
  "js_index xs i = (if 0 \<le> i \<and> i < int (length xs) then Some (xs ! nat i) else None)"

text \<open>\<^verbatim>\<open>xs.slice(0, e)\<close>: a negative \<^verbatim>\<open>e\<close> counts from the end.\<close>

definition js_slice0 :: "'a list \<Rightarrow> int \<Rightarrow> 'a list" where
  "js_slice0 xs e = take (nat (if e < 0 then int (length xs) + e else e)) xs"

text \<open>\<^verbatim>\<open>t.includes(u)\<close>\<close>

fun starts_with :: "string \<Rightarrow> string \<Rightarrow> bool" where
  "starts_with t [] = True"
| "starts_with [] (c # u) = False"
| "starts_with (d # t) (c # u) = (d = c \<and> starts_with t u)"

fun js_includes :: "string \<Rightarrow> string \<Rightarrow> bool" where
  "js_includes [] u = (u = [])"
| "js_includes (d # t) u = (if starts_with (d # t) u then True else js_includes t u)"

subsection \<open>Results and session history\<close>

text \<open>\<^verbatim>\<open>addResult\<close> (lines 125 to 135)\<close>

definition addResult :: "Env \<Rightarrow> string \<Rightarrow> string \<Rightarrow> string \<Rightarrow> string \<Rightarrow> App \<Rightarrow> App" where
  "addResult env u b res ut s =
     (let newResult =
            \<lparr>r_id = rid env, r_url = u, r_base64 = b, r_resolution = res,
             r_upscaleType = ut, r_timestamp = now env\<rparr>
      in s\<lparr>results := newResult # results s\<rparr>)"

text \<open>\<^verbatim>\<open>addToHistory\<close> (lines 332 to 334)\<close>

definition addToHistory :: "Env \<Rightarrow> string \<Rightarrow> string \<Rightarrow> App \<Rightarrow> App" where
  "addToHistory env u promptText s =
     s\<lparr>history :=
         take 20
           (\<lparr>h_id = now env, h_url = u, h_prompt = promptText, h_timestamp = now env\<rparr>
            # history s)\<rparr>"

subsection \<open>Crop undo and redo history\<close>

text \<open>\<^verbatim>\<open>pushCropHistory\<close> (lines 379 to 385)\<close>

definition pushCropHistory :: "Point \<Rightarrow> Size \<Rightarrow> CropRatio \<Rightarrow> App \<Rightarrow> App" where
  "pushCropHistory pos sz ratio s =
     (let newState = \<lparr>cs_pos = pos, cs_size = sz, cs_ratio = ratio\<rparr>;
          newHistory = js_slice0 (cropHistory s) (cropHistoryIndex s + 1) @ [newState]
      in s\<lparr>cropHistory := newHistory, cropHistoryIndex := int (length newHistory) - 1\<rparr>)"

text \<open>
  \<^verbatim>\<open>undoCrop\<close> (lines 387 to 395). Reading \<^verbatim>\<open>prev.pos\<close> of an \<^verbatim>\<open>undefined\<close> entry
  throws before any cell is set, which leaves the state as it was.
\<close>

definition undoCrop :: "App \<Rightarrow> App" where
  "undoCrop s =
     (if cropHistoryIndex s > 0 then
        (case js_index (cropHistory s) (cropHistoryIndex s - 1) of
           None \<Rightarrow> s
         | Some prev \<Rightarrow>
             s\<lparr>cropPos := cs_pos prev, cropSize := cs_size prev, cropRatio := cs_ratio prev,
               cropHistoryIndex := cropHistoryIndex s - 1\<rparr>)
      else s)"

text \<open>\<^verbatim>\<open>redoCrop\<close> (lines 397 to 405)\<close>

definition redoCrop :: "App \<Rightarrow> App" where
  "redoCrop s =
     (if cropHistoryIndex s < int (length (cropHistory s)) - 1 then
        (case js_index (cropHistory s) (cropHistoryIndex s + 1) of
           None \<Rightarrow> s
         | Some next_state \<Rightarrow>
             s\<lparr>cropPos := cs_pos next_state, cropSize := cs_size next_state,
               cropRatio := cs_ratio next_state,
               cropHistoryIndex := cropHistoryIndex s + 1\<rparr>)
      else s)"

text \<open>
  The argument of \<^verbatim>\<open>startCrop\<close>: \<^verbatim>\<open>BatchImage | ImageState | ResultItem\<close>. An
  \<^verbatim>\<open>ImageState\<close> has no \<^verbatim>\<open>id\<close>.
\<close>

datatype CropTarget =
    Target_image ImageState
  | Target_batch BatchImage
  | Target_result ResultItem

fun target_id :: "CropTarget \<Rightarrow> string option" where
  "target_id (Target_image i) = None"
| "target_id (Target_batch b) = Some (b_id b)"
| "target_id (Target_result r) = Some (r_id r)"

fun target_base64 :: "CropTarget \<Rightarrow> string option" where
  "target_base64 (Target_image i) = base64 i"
| "target_base64 (Target_batch b) = Some (b_base64 b)"
| "target_base64 (Target_result r) = Some (r_base64 r)"

text \<open>\<^verbatim>\<open>startCrop\<close> (lines 407 to 418)\<close>

definition startCrop :: "CropTarget \<Rightarrow> App \<Rightarrow> App" where
  "startCrop item s =
     (if truthy (target_base64 item) then
        (let initialPos = \<lparr>px = 50, py = 50\<rparr>; initialSize = \<lparr>sw = 40, sh = 40\<rparr>
         in s\<lparr>cropData :=
                 Some \<lparr>cd_id = or_else (target_id item) ''current'',
                       cd_base64 = the (target_base64 item)\<rparr>,
               mode := CROPPING, cropRatio := Ratio_1_1, cropPos := initialPos,
               cropSize := initialSize,
               cropHistory :=
                 [\<lparr>cs_pos = initialPos, cs_size = initialSize, cs_ratio = Ratio_1_1\<rparr>],
               cropHistoryIndex := 0\<rparr>)
      else s)"

text \<open>\<^verbatim>\<open>updateCropBox\<close> (lines 420 to 431)\<close>

definition updateCropBox :: "CropRatio \<Rightarrow> App \<Rightarrow> App" where
  "updateCropBox ratio s =
     (let newSize =
            (case ratio of
               Ratio_1_1 \<Rightarrow> \<lparr>sw = 40, sh = 40\<rparr>
             | Ratio_16_9 \<Rightarrow> \<lparr>sw = 60, sh = 33.75\<rparr>
             | Ratio_9_16 \<Rightarrow> \<lparr>sw = 25, sh = 44.44\<rparr>
             | Ratio_Free \<Rightarrow> cropSize s)
      in pushCropHistory \<lparr>px = 50, py = 50\<rparr> newSize ratio
           (s\<lparr>cropRatio := ratio, cropSize := newSize, cropPos := \<lparr>px = 50, py = 50\<rparr>\<rparr>))"

text \<open>
  \<^verbatim>\<open>handleHandleUp\<close> (lines 515 to 520). No element of the JSX names it as a handler:
  no event calls it.
\<close>

definition handleHandleUp :: "App \<Rightarrow> App" where
  "handleHandleUp s =
     (case activeHandle s of
        None \<Rightarrow> s
      | Some hnd \<Rightarrow>
          (pushCropHistory (cropPos s) (cropSize s) (cropRatio s) s)\<lparr>activeHandle := None\<rparr>)"

subsection \<open>Crop geometry\<close>

text \<open>\<^verbatim>\<open>cropRatio === '1:1' ? 1 : (cropRatio === '16:9' ? 16 / 9 : 9 / 16)\<close>\<close>

definition targetRatio :: "CropRatio \<Rightarrow> real" where
  "targetRatio r = (if r = Ratio_1_1 then 1 else if r = Ratio_16_9 then 16 / 9 else 9 / 16)"

text \<open>
  The corner branch of \<^verbatim>\<open>handleCropMouseMove\<close> (lines 482 to 511): the new
  \<^verbatim>\<open>cropPos\<close> and \<^verbatim>\<open>cropSize\<close> for the handle \<open>hnd\<close>, from the pointer position in
  percent of the container. The tuples are \<^verbatim>\<open>(left, top, right, bottom)\<close>,
  \<^verbatim>\<open>(top, bottom, newH)\<close> and \<^verbatim>\<open>(top, bottom, newW, newH)\<close>.
\<close>

definition handleCropMouseMove_corner ::
  "Handle \<Rightarrow> CropRatio \<Rightarrow> Point \<Rightarrow> Size \<Rightarrow> real \<Rightarrow> real \<Rightarrow> Point \<times> Size" where
  "handleCropMouseMove_corner hnd ratio pos sz mouseX mouseY =
     (let left0 = px pos - sw sz / 2;
          top0 = py pos - sh sz / 2;
          right0 = px pos + sw sz / 2;
          bottom0 = py pos + sh sz / 2;
          (left, top1, right, bottom1) =
            (case hnd of
               H_tl \<Rightarrow> (min (right0 - 5) (max 0 mouseX), min (bottom0 - 5) (max 0 mouseY),
                        right0, bottom0)
             | H_tr \<Rightarrow> (left0, min (bottom0 - 5) (max 0 mouseY),
                        max (left0 + 5) (min 100 mouseX), bottom0)
             | H_bl \<Rightarrow> (min (right0 - 5) (max 0 mouseX), top0, right0,
                        max (top0 + 5) (min 100 mouseY))
             | H_br \<Rightarrow> (left0, top0, max (left0 + 5) (min 100 mouseX),
                        max (top0 + 5) (min 100 mouseY))
             | H_center \<Rightarrow> (left0, top0, right0, bottom0));
          newW1 = right - left;
          newH1 = bottom1 - top1;
          (top4, bottom4, newW4, newH4) =
            (if ratio = Ratio_Free then (top1, bottom1, newW1, newH1)
             else
               (let newH2 = newW1 / targetRatio ratio;
                    (top2, bottom2) =
                      (if hnd = H_tr \<or> hnd = H_tl then (bottom1 - newH2, bottom1)
                       else if hnd = H_br \<or> hnd = H_bl then (top1, top1 + newH2)
                       else (top1, bottom1));
                    (top3, bottom3, newW3, newH3) =
                      (if bottom2 > 100
                       then (top2, 100, (100 - top2) * targetRatio ratio, 100 - top2)
                       else (top2, bottom2, newW1, newH2))
                in if top3 < 0
                   then (0, bottom3, (bottom3 - 0) * targetRatio ratio, bottom3 - 0)
                   else (top3, bottom3, newW3, newH3)))
      in (\<lparr>px = left + newW4 / 2, py = top4 + newH4 / 2\<rparr>, \<lparr>sw = newW4, sh = newH4\<rparr>))"

text \<open>
  \<^verbatim>\<open>handleCropMouseMove\<close> (lines 466 to 513). \<open>mouseX\<close> and \<open>mouseY\<close> are the values
  of lines 472 and 473, the pointer position in percent of the container's bounding
  box. \<^verbatim>\<open>cropContainerRef.current\<close> is set exactly while the crop modal is mounted,
  that is while \<^verbatim>\<open>mode === AppMode.CROPPING\<close>.
\<close>

definition handleCropMouseMove :: "real \<Rightarrow> real \<Rightarrow> App \<Rightarrow> App" where
  "handleCropMouseMove mouseX mouseY s =
     (if mode s = CROPPING then
        (case activeHandle s of
           None \<Rightarrow> s
         | Some hnd \<Rightarrow>
             if hnd = H_center then
               (let halfW = sw (cropSize s) / 2;
                    halfH = sh (cropSize s) / 2;
                    x = max halfW (min (100 - halfW) mouseX);
                    y = max halfH (min (100 - halfH) mouseY)
                in s\<lparr>cropPos := \<lparr>px = x, py = y\<rparr>\<rparr>)
             else
               (let (p, z) =
                      handleCropMouseMove_corner hnd (cropRatio s) (cropPos s) (cropSize s)
                        mouseX mouseY
                in s\<lparr>cropSize := z, cropPos := p\<rparr>))
      else s)"

subsection \<open>Committing a crop\<close>

text \<open>Lines 442 to 445 of \<^verbatim>\<open>executeCrop\<close>.\<close>

definition cropRect :: "real \<Rightarrow> real \<Rightarrow> Point \<Rightarrow> Size \<Rightarrow> PixelRect" where
  "cropRect realW realH pos sz =
     (let width = (sw sz / 100) * realW;
          height = (sh sz / 100) * realH;
          x = (px pos / 100) * realW - (width / 2);
          y = (py pos / 100) * realH - (height / 2)
      in \<lparr>rect_x = x, rect_y = y, rect_width = width, rect_height = height\<rparr>)"

text \<open>
  \<^verbatim>\<open>prev.map(item => item.id === k ? { ...item, url, base64, resolution } : item)\<close>
  of line 459, on the addresses \<open>as\<close> of the array and the store \<open>h\<close>: an entry of
  the id \<open>k\<close> is replaced by a new object, made at the next address from \<open>n\<close> on, and
  any other entry stays the object it is. The result is the new array and the store.
\<close>

fun crop_entries ::
  "string \<Rightarrow> string \<Rightarrow> nat \<Rightarrow> (nat \<Rightarrow> BatchImage) \<Rightarrow> nat list
     \<Rightarrow> nat list \<times> (nat \<Rightarrow> BatchImage)" where
  "crop_entries k cropped n h [] = ([], h)"
| "crop_entries k cropped n h (a # as) =
     (if b_id (h a) = k then
        (let (bs, h1) =
               crop_entries k cropped (Suc n)
                 (h(n := (h a)\<lparr>b_url := cropped, b_base64 := cropped,
                                 b_resolution := ''Cropped''\<rparr>))
                 as
         in (n # bs, h1))
      else (let (bs, h1) = crop_entries k cropped n h as in (a # bs, h1)))"

text \<open>
  The \<^verbatim>\<open>onload\<close> callback of \<^verbatim>\<open>executeCrop\<close> (lines 439 to 463). \<open>png b r\<close> stands
  for \<^verbatim>\<open>canvas.toDataURL('image/png')\<close> after the canvas was given the size of \<open>r\<close>
  and the rectangle \<open>r\<close> of the image \<open>b\<close> was drawn on it; \<open>realW\<close> and \<open>realH\<close> are
  the natural width and height of the loaded image.
\<close>

definition executeCrop_onload ::
  "(string \<Rightarrow> PixelRect \<Rightarrow> string) \<Rightarrow> Env \<Rightarrow> real \<Rightarrow> real \<Rightarrow> CropClosure \<Rightarrow> App \<Rightarrow> App" where
  "executeCrop_onload png env realW realH c s =
     (let croppedBase64 =
            png (cd_base64 (cc_cropData c)) (cropRect realW realH (cc_cropPos c) (cc_cropSize c));
          previousUrl = cc_previousUrl c;
          s1 =
            (if cd_id (cc_cropData c) = ''current'' then
               s\<lparr>currentImage :=
                   (currentImage s)
                     \<lparr>url := Some croppedBase64, base64 := Some croppedBase64,
                      beforeUrl := previousUrl, resolution := ''Cropped''\<rparr>\<rparr>
             else
               (let s2 =
                      (if list_ex (\<lambda>r. r_id r = cd_id (cc_cropData c)) (cc_results c)
                       then addResult env croppedBase64 croppedBase64 ''Cropped''
                              ''Manual Edit'' s
                       else s);
                    (q, h) =
                      crop_entries (cd_id (cc_cropData c)) croppedBase64 (new_object s2)
                        (objects s2) (batchQueue s2)
                in s2\<lparr>objects := h, batchQueue := q\<rparr>))
      in s1\<lparr>mode := IDLE, cropData := None\<rparr>)"

text \<open>
  \<^verbatim>\<open>executeCrop\<close> up to the assignment of \<^verbatim>\<open>img.src\<close> (lines 433 to 438): the closure
  of the callback, or nothing when the function returns at once. \<^verbatim>\<open>canvasRef.current\<close>
  belongs to the crop modal and is set exactly while \<^verbatim>\<open>mode === AppMode.CROPPING\<close>.
\<close>

definition executeCrop :: "App \<Rightarrow> CropClosure option" where
  "executeCrop s =
     (if mode s = CROPPING then
        (case cropData s of
           None \<Rightarrow> None
         | Some cd \<Rightarrow>
             Some \<lparr>cc_cropData = cd, cc_cropPos = cropPos s, cc_cropSize = cropSize s,
                   cc_previousUrl = url (currentImage s), cc_results = results s\<rparr>)
      else None)"

subsection \<open>Zoom\<close>

text \<open>\<^verbatim>\<open>startZoom\<close> (lines 346 to 351)\<close>

definition startZoom :: "App \<Rightarrow> App" where
  "startZoom s =
     (if truthy (url (currentImage s))
      then s\<lparr>zoomScale := 1, zoomTranslate := \<lparr>px = 0, py = 0\<rparr>, mode := ZOOMING\<rparr>
      else s)"

text \<open>\<^verbatim>\<open>handleZoomWheel\<close> (lines 353 to 357), from \<^verbatim>\<open>e.deltaY\<close>.\<close>

definition handleZoomWheel :: "real \<Rightarrow> App \<Rightarrow> App" where
  "handleZoomWheel deltaY s =
     (let delta = (if deltaY > 0 then - 0.1 else 0.1)
      in s\<lparr>zoomScale := max 0.5 (min 10 (zoomScale s + delta))\<rparr>)"

text \<open>The \<^verbatim>\<open>onClick\<close> of the three buttons of the zoom header (lines 831 to 833).\<close>

definition zoomOut_onClick :: "App \<Rightarrow> App" where
  "zoomOut_onClick s = s\<lparr>zoomScale := max 0.5 (zoomScale s - 0.5)\<rparr>"

definition resetZoom_onClick :: "App \<Rightarrow> App" where
  "resetZoom_onClick s = s\<lparr>zoomScale := 1\<rparr>"

definition zoomIn_onClick :: "App \<Rightarrow> App" where
  "zoomIn_onClick s = s\<lparr>zoomScale := min 10 (zoomScale s + 0.5)\<rparr>"

text \<open>\<^verbatim>\<open>handleZoomMouseDown\<close>, \<^verbatim>\<open>handleZoomMouseMove\<close>, \<^verbatim>\<open>handleZoomMouseUp\<close> (lines 359 to 376)\<close>

definition handleZoomMouseDown :: "App \<Rightarrow> App" where
  "handleZoomMouseDown s = (if zoomScale s > 1 then s\<lparr>isPanning := True\<rparr> else s)"

definition handleZoomMouseMove :: "real \<Rightarrow> real \<Rightarrow> App \<Rightarrow> App" where
  "handleZoomMouseMove movementX movementY s =
     (if isPanning s
      then s\<lparr>zoomTranslate :=
               \<lparr>px = px (zoomTranslate s) + movementX, py = py (zoomTranslate s) + movementY\<rparr>\<rparr>
      else s)"

definition handleZoomMouseUp :: "App \<Rightarrow> App" where
  "handleZoomMouseUp s = s\<lparr>isPanning := False\<rparr>"

subsection \<open>Operations that call the image service\<close>

text \<open>
  Each handler is written in two parts: the statements up to the \<^verbatim>\<open>await\<close>, and the
  rest of the function as a function of the outcome of the awaited promise (\<open>Inl\<close> the
  value thrown, \<open>Inr\<close> the value returned). Where a \<^verbatim>\<open>catch\<close> block sets the mode to
  \<^verbatim>\<open>ERROR\<close> and a \<^verbatim>\<open>finally\<close> block sets it to \<^verbatim>\<open>IDLE\<close>, both updates are written.
\<close>

text \<open>\<^verbatim>\<open>handleGenerate\<close> (lines 137 to 152)\<close>

definition handleGenerate :: "App \<Rightarrow> App" where
  "handleGenerate s =
     (if trim (prompt s) = [] then s
      else s\<lparr>mode := GENERATING, error := None, isComparing := False,
             pending := pending s @ [GenerateImage_call (prompt s)]\<rparr>)"

definition handleGenerate_then :: "Env \<Rightarrow> string \<Rightarrow> JsError + string \<Rightarrow> App \<Rightarrow> App" where
  "handleGenerate_then env p out s =
     (case out of
        Inr imageUrl \<Rightarrow>
          (addToHistory env imageUrl p
             (s\<lparr>currentImage :=
                  \<lparr>url = Some imageUrl, base64 = Some imageUrl, beforeUrl = None,
                   resolution = ''1K'', isUpscaled = False, upscaleType = None\<rparr>\<rparr>))
          \<lparr>mode := IDLE\<rparr>
      | Inl err \<Rightarrow>
          (s\<lparr>error := Some (or_else (message err) ''Failed to generate image''),
             mode := ERROR\<rparr>)
          \<lparr>mode := IDLE\<rparr>)"

text \<open>\<^verbatim>\<open>handleEdit\<close> (lines 154 to 168)\<close>

definition handleEdit :: "App \<Rightarrow> App" where
  "handleEdit s =
     (if trim (prompt s) = [] then s
      else if truthy (base64 (currentImage s))
      then s\<lparr>mode := EDITING,
             pending := pending s @ [EditImage_call (currentImage s) (prompt s)]\<rparr>
      else s)"

definition handleEdit_then ::
  "Env \<Rightarrow> ImageState \<Rightarrow> string \<Rightarrow> JsError + string \<Rightarrow> App \<Rightarrow> App" where
  "handleEdit_then env ci p out s =
     (case out of
        Inr imageUrl \<Rightarrow>
          (addToHistory env imageUrl (''Edit: '' @ p)
             (s\<lparr>currentImage :=
                  ci\<lparr>url := Some imageUrl, base64 := Some imageUrl, beforeUrl := url ci,
                     isUpscaled := False, resolution := ''1K''\<rparr>\<rparr>))
          \<lparr>isComparing := True, mode := IDLE\<rparr>
      | Inl err \<Rightarrow>
          (s\<lparr>error := Some (or_else (message err) ''Failed to edit'')\<rparr>)\<lparr>mode := IDLE\<rparr>)"

text \<open>\<^verbatim>\<open>handleRemoveWatermark\<close> (lines 170 to 187)\<close>

definition handleRemoveWatermark :: "App \<Rightarrow> App" where
  "handleRemoveWatermark s =
     (if truthy (base64 (currentImage s))
      then s\<lparr>mode := REMOVING_WATERMARK, error := None,
             pending := pending s @ [Watermark_call (currentImage s)]\<rparr>
      else s)"

definition handleRemoveWatermark_then ::
  "Env \<Rightarrow> ImageState \<Rightarrow> JsError + string \<Rightarrow> App \<Rightarrow> App" where
  "handleRemoveWatermark_then env ci out s =
     (case out of
        Inr result \<Rightarrow>
          (addToHistory env result ''Auto Watermark Removal''
             (s\<lparr>currentImage :=
                  ci\<lparr>url := Some result, base64 := Some result, beforeUrl := url ci,
                     resolution := resolution ci\<rparr>\<rparr>))
          \<lparr>isComparing := True, mode := IDLE\<rparr>
      | Inl err \<Rightarrow>
          (s\<lparr>error := Some (or_else (message err) ''Failed to remove watermark''),
             mode := ERROR\<rparr>)
          \<lparr>mode := IDLE\<rparr>)"

text \<open>\<^verbatim>\<open>startMagicHand\<close> (lines 190 to 203); the timer only paints the mask canvas.\<close>

definition startMagicHand :: "App \<Rightarrow> App" where
  "startMagicHand s = (if truthy (url (currentImage s)) then s\<lparr>mode := MAGIC_HAND\<rparr> else s)"

text \<open>
  \<^verbatim>\<open>castMagicHand\<close> (lines 242 to 262). The mask canvas of \<^verbatim>\<open>magicCanvasRef\<close> is
  mounted exactly while \<^verbatim>\<open>mode === AppMode.MAGIC_HAND\<close> and \<^verbatim>\<open>currentImage.url\<close> is
  truthy (lines 643 and 712).
\<close>

definition castMagicHand :: "App \<Rightarrow> App" where
  "castMagicHand s =
     (if truthy (base64 (currentImage s)) \<and> mode s = MAGIC_HAND \<and> truthy (url (currentImage s))
      then s\<lparr>mode := REMOVING_WATERMARK,
             pending := pending s @ [EditWithMask_call (currentImage s)]\<rparr>
      else s)"

definition castMagicHand_then :: "Env \<Rightarrow> ImageState \<Rightarrow> JsError + string \<Rightarrow> App \<Rightarrow> App" where
  "castMagicHand_then env ci out s =
     (case out of
        Inr result \<Rightarrow>
          (addToHistory env result ''Magic Hand Removal''
             (s\<lparr>currentImage :=
                  ci\<lparr>url := Some result, base64 := Some result, beforeUrl := url ci,
                     resolution := resolution ci\<rparr>\<rparr>))
          \<lparr>isComparing := True, mode := IDLE\<rparr>
      | Inl err \<Rightarrow>
          s\<lparr>error := Some (or_else (message err) ''Magic Hand failed''), mode := ERROR\<rparr>)"

text \<open>
  \<^verbatim>\<open>handleUpscale4K\<close> (lines 264 to 286). With \<^verbatim>\<open>window.aistudio\<close> defined the function
  awaits \<^verbatim>\<open>hasSelectedApiKey\<close>, and \<^verbatim>\<open>openSelectKey\<close> when there is no key, before it
  sets the mode; an error of either is only logged.
\<close>

definition handleUpscale4K_upscale :: "ImageState \<Rightarrow> App \<Rightarrow> App" where
  "handleUpscale4K_upscale ci s =
     s\<lparr>mode := UPSCALING, error := None, pending := pending s @ [UpscaleTo4K_call ci]\<rparr>"

definition handleUpscale4K :: "Env \<Rightarrow> App \<Rightarrow> App" where
  "handleUpscale4K env s =
     (if truthy (base64 (currentImage s)) then
        (if aistudio env
         then s\<lparr>pending := pending s @ [HasSelectedApiKey_call (currentImage s)]\<rparr>
         else handleUpscale4K_upscale (currentImage s) s)
      else s)"

definition handleUpscale4K_hasKey :: "ImageState \<Rightarrow> JsError + bool \<Rightarrow> App \<Rightarrow> App" where
  "handleUpscale4K_hasKey ci out s =
     (case out of
        Inr hasKey \<Rightarrow>
          if hasKey then handleUpscale4K_upscale ci s
          else s\<lparr>pending := pending s @ [OpenSelectKey_call ci]\<rparr>
      | Inl e \<Rightarrow> handleUpscale4K_upscale ci s)"

definition handleUpscale4K_openKey :: "ImageState \<Rightarrow> JsError + unit \<Rightarrow> App \<Rightarrow> App" where
  "handleUpscale4K_openKey ci out s = handleUpscale4K_upscale ci s"

text \<open>The last two statements of the \<^verbatim>\<open>catch\<close> block, and the \<^verbatim>\<open>finally\<close> block.\<close>

definition handleUpscale4K_catch :: "JsError \<Rightarrow> App \<Rightarrow> App" where
  "handleUpscale4K_catch err s =
     (s\<lparr>error := Some (or_else (message err) ''Failed to upscale to 4K''), mode := ERROR\<rparr>)
     \<lparr>mode := IDLE\<rparr>"

definition handleUpscale4K_then :: "Env \<Rightarrow> ImageState \<Rightarrow> JsError + string \<Rightarrow> App \<Rightarrow> App" where
  "handleUpscale4K_then env ci out s =
     (case out of
        Inr result \<Rightarrow>
          (addToHistory env result ''Pro 4K Enhancement''
             (addResult env result result ''4K'' ''Pro 4K''
                (s\<lparr>currentImage :=
                     \<lparr>url = Some result, base64 = Some result, beforeUrl = url ci,
                      resolution = ''4K'', isUpscaled = True, upscaleType = Some Pro_4K\<rparr>\<rparr>)))
          \<lparr>isComparing := True, mode := IDLE\<rparr>
      | Inl err \<Rightarrow>
          if (case message err of
                None \<Rightarrow> False
              | Some m \<Rightarrow> js_includes m ''Requested entity was not found'')
             \<and> aistudio env
          then s\<lparr>pending := pending s @ [OpenSelectKey_in_catch_call err]\<rparr>
          else handleUpscale4K_catch err s)"

text \<open>
  After the \<^verbatim>\<open>openSelectKey\<close> of the \<^verbatim>\<open>catch\<close> block: when it throws, the rest of
  the block is skipped and only the \<^verbatim>\<open>finally\<close> block runs.
\<close>

definition handleUpscale4K_openKey_in_catch :: "JsError \<Rightarrow> JsError + unit \<Rightarrow> App \<Rightarrow> App" where
  "handleUpscale4K_openKey_in_catch err out s =
     (case out of Inr u \<Rightarrow> handleUpscale4K_catch err s | Inl e \<Rightarrow> s\<lparr>mode := IDLE\<rparr>)"

subsection \<open>The batch queue\<close>

text \<open>
  \<^verbatim>\<open>handleFileUpload\<close> (lines 313 to 326) for \<open>n\<close> files, and the \<^verbatim>\<open>onloadend\<close>
  callback of one reader; the callback tests the \<^verbatim>\<open>currentImage\<close> of the render in
  which the files were chosen.
\<close>

definition handleFileUpload :: "nat \<Rightarrow> App \<Rightarrow> App" where
  "handleFileUpload n s = s\<lparr>pending := pending s @ replicate n (ReadFile_call (currentImage s))\<rparr>"

definition handleFileUpload_onloadend :: "Env \<Rightarrow> ImageState \<Rightarrow> string \<Rightarrow> App \<Rightarrow> App" where
  "handleFileUpload_onloadend env ci b s =
     (let newBatchItem =
            \<lparr>b_id = rid env, b_url = b, b_base64 = b, b_status = Status_idle,
             b_resolution = ''Original'', b_upscaleType = None, b_error = None\<rparr>;
          a = new_object s;
          s1 = s\<lparr>objects := (objects s)(a := newBatchItem), batchQueue := batchQueue s @ [a]\<rparr>
      in if truthy (url ci) then s1
         else s1\<lparr>currentImage :=
                   \<lparr>url = Some b, base64 = Some b, beforeUrl = None,
                    resolution = ''Original'', isUpscaled = False, upscaleType = None\<rparr>\<rparr>)"

text \<open>\<^verbatim>\<open>removeFromBatch\<close> (lines 328 to 330)\<close>

definition removeFromBatch :: "string \<Rightarrow> App \<Rightarrow> App" where
  "removeFromBatch i s =
     s\<lparr>batchQueue := filter (\<lambda>a. b_id (objects s a) \<noteq> i) (batchQueue s)\<rparr>"

text \<open>
  The body of the loop of \<^verbatim>\<open>handleBatchUpscale\<close> after the \<^verbatim>\<open>await\<close> (lines 297 to
  308), for the outcome of the call for item \<open>i\<close> of the local array \<open>uq\<close>
  (\<^verbatim>\<open>updatedQueue\<close>): the object \<^verbatim>\<open>updatedQueue[i]\<close> is updated in place, and a copy of
  the array becomes \<^verbatim>\<open>batchQueue\<close>.
\<close>

definition handleBatchUpscale_item ::
  "Env \<Rightarrow> nat \<Rightarrow> JsError + string \<Rightarrow> nat list \<Rightarrow> App \<Rightarrow> App" where
  "handleBatchUpscale_item env i out uq s =
     (let a = uq ! i;
          s1 =
            (case out of
               Inr result \<Rightarrow>
                 addResult env result result ''Enhanced HD'' ''Free Batch''
                   (s\<lparr>objects :=
                        (objects s)
                          (a := (objects s a)
                                  \<lparr>b_url := result, b_base64 := result, b_status := Status_done,
                                   b_resolution := ''Enhanced HD'',
                                   b_upscaleType := Some Free\<rparr>)\<rparr>)
             | Inl err \<Rightarrow>
                 s\<lparr>objects :=
                     (objects s)
                       (a := (objects s a)\<lparr>b_status := Status_error, b_error := message err\<rparr>)\<rparr>)
      in s1\<lparr>batchQueue := uq\<rparr>)"

text \<open>
  The loop of \<^verbatim>\<open>handleBatchUpscale\<close> from index \<open>i\<close> up to the next \<^verbatim>\<open>await\<close>, or to
  the end of the function (lines 292 to 295 and 310).
\<close>

function handleBatchUpscale_from :: "nat \<Rightarrow> nat list \<Rightarrow> App \<Rightarrow> App" where
  "handleBatchUpscale_from i uq s =
     (if i < length uq then
        (if b_status (objects s (uq ! i)) = Status_done
         then handleBatchUpscale_from (Suc i) uq s
         else
           s\<lparr>objects :=
               (objects s)
                 (uq ! i := (objects s (uq ! i))\<lparr>b_status := Status_processing\<rparr>),
             batchQueue := uq, pending := pending s @ [UpscaleFree_call uq i]\<rparr>)
      else s\<lparr>mode := IDLE\<rparr>)"
  by pat_completeness auto
termination
  by (relation "measure (\<lambda>(i, uq, s). length uq - i)") auto

text \<open>
  \<^verbatim>\<open>handleBatchUpscale\<close> (lines 288 to 311) up to its first \<^verbatim>\<open>await\<close>;
  \<^verbatim>\<open>[...batchQueue]\<close> is a new array of the same objects.
\<close>

definition handleBatchUpscale :: "App \<Rightarrow> App" where
  "handleBatchUpscale s =
     (if batchQueue s = [] then s
      else handleBatchUpscale_from 0 (batchQueue s) (s\<lparr>mode := BATCH_PROCESSING\<rparr>))"

definition handleBatchUpscale_then ::
  "Env \<Rightarrow> nat list \<Rightarrow> nat \<Rightarrow> JsError + string \<Rightarrow> App \<Rightarrow> App" where
  "handleBatchUpscale_then env uq i out s =
     handleBatchUpscale_from (Suc i) uq (handleBatchUpscale_item env i out uq s)"

subsection \<open>Events\<close>

text \<open>
  The outcome of a pending promise: of a call that returns an image, of
  \<^verbatim>\<open>hasSelectedApiKey\<close>, of \<^verbatim>\<open>openSelectKey\<close>, of a \<^verbatim>\<open>FileReader\<close> (the data URL
  read) and of the \<^verbatim>\<open>Image\<close> of \<^verbatim>\<open>executeCrop\<close> (its natural width and height, or
  nothing when it fails to load and \<^verbatim>\<open>onload\<close> is never called).
\<close>

datatype Outcome =
    Image_outcome "JsError + string"
  | HasKey_outcome "JsError + bool"
  | OpenKey_outcome "JsError + unit"
  | File_outcome string
  | Load_outcome "(real \<times> real) option"

text \<open>The continuation of a pending call, for an outcome of its kind.\<close>

definition settle ::
  "(string \<Rightarrow> PixelRect \<Rightarrow> string) \<Rightarrow> Env \<Rightarrow> Call \<Rightarrow> Outcome \<Rightarrow> App \<Rightarrow> App option" where
  "settle png env c outcome s =
     (case (c, outcome) of
        (GenerateImage_call p, Image_outcome out) \<Rightarrow> Some (handleGenerate_then env p out s)
      | (EditImage_call ci p, Image_outcome out) \<Rightarrow> Some (handleEdit_then env ci p out s)
      | (Watermark_call ci, Image_outcome out) \<Rightarrow>
          Some (handleRemoveWatermark_then env ci out s)
      | (EditWithMask_call ci, Image_outcome out) \<Rightarrow> Some (castMagicHand_then env ci out s)
      | (UpscaleTo4K_call ci, Image_outcome out) \<Rightarrow> Some (handleUpscale4K_then env ci out s)
      | (UpscaleFree_call uq i, Image_outcome out) \<Rightarrow>
          Some (handleBatchUpscale_then env uq i out s)
      | (HasSelectedApiKey_call ci, HasKey_outcome out) \<Rightarrow>
          Some (handleUpscale4K_hasKey ci out s)
      | (OpenSelectKey_call ci, OpenKey_outcome out) \<Rightarrow>
          Some (handleUpscale4K_openKey ci out s)
      | (OpenSelectKey_in_catch_call err, OpenKey_outcome out) \<Rightarrow>
          Some (handleUpscale4K_openKey_in_catch err out s)
      | (ReadFile_call ci, File_outcome b) \<Rightarrow> Some (handleFileUpload_onloadend env ci b s)
      | (ImageLoad_call cl, Load_outcome None) \<Rightarrow> Some s
      | (ImageLoad_call cl, Load_outcome (Some (realW, realH))) \<Rightarrow>
          Some (executeCrop_onload png env realW realH cl s)
      | _ \<Rightarrow> None)"

text \<open>
  What can happen to the component: the user acts on an element of the JSX (the line
  of the element is given), or the pending call at a position of \<open>pending\<close> settles.
  Events of the mask canvas and of the comparison slider only touch state that is left
  out. \<open>Mouse_up\<close> is the \<^verbatim>\<open>onMouseUp\<close> of the root element, which every mouse release
  on the page reaches.
\<close>

datatype Event =
    Type_prompt string
  | Choose_files nat
  | Click_Generate
  | Click_queue_Clear
  | Click_queue_image nat
  | Click_queue_remove nat
  | Click_Upscale_All
  | Click_Magic_Hand
  | Click_Auto_Erase
  | Click_magic_Cancel
  | Click_Execute_Erase
  | Click_Compare
  | Click_Zoom_Viewer
  | Click_Advanced_Crop
  | Click_Upgrade_4K
  | Click_Edit_Selection
  | Click_image
  | Click_results_Clear
  | Click_result_View nat
  | Click_result_remove nat
  | Click_result_Crop nat
  | Zoom_wheel real
  | Click_zoom_out
  | Click_zoom_Reset
  | Click_zoom_in
  | Click_zoom_close
  | Zoom_mouse_down
  | Zoom_mouse_move real real
  | Mouse_up
  | Click_Undo
  | Click_Redo
  | Crop_mouse_move real real
  | Crop_handle_down Handle
  | Click_ratio CropRatio
  | Click_Finalize_Crop
  | Click_Discard
  | Transfer_image string
  | Transfer_text string
  | Click_history_Clear
  | Click_history_item nat
  | Click_error_dismiss
  | Settled nat Outcome

text \<open>
  The toolbar over the image (lines 658 to 665) is rendered while \<^verbatim>\<open>currentImage.url\<close>
  is truthy and \<^verbatim>\<open>mode === AppMode.IDLE\<close>; the zoom modal (line 819) while
  \<^verbatim>\<open>mode === AppMode.ZOOMING\<close> and \<^verbatim>\<open>currentImage.url\<close> is truthy.
\<close>

definition toolbar_shown :: "App \<Rightarrow> bool" where
  "toolbar_shown s = (truthy (url (currentImage s)) \<and> mode s = IDLE)"

definition zoom_modal_shown :: "App \<Rightarrow> bool" where
  "zoom_modal_shown s = (mode s = ZOOMING \<and> truthy (url (currentImage s)))"

text \<open>
  One event. An event on an element that is not rendered, or on a button whose
  \<^verbatim>\<open>disabled\<close> attribute is set, changes nothing; the conditions are those of the JSX
  (\<^verbatim>\<open>Button\<close> is taken to pass \<^verbatim>\<open>disabled\<close> on to its \<^verbatim>\<open>button\<close>). A handler reads
  the state of the latest render, which is the state before the event.
\<close>

fun step :: "(string \<Rightarrow> PixelRect \<Rightarrow> string) \<Rightarrow> Env \<Rightarrow> Event \<Rightarrow> App \<Rightarrow> App" where
  "step png env (Type_prompt p) s = s\<lparr>prompt := p\<rparr>"
| "step png env (Choose_files n) s = handleFileUpload n s"
| "step png env Click_Generate s =
     (if trim (prompt s) \<noteq> [] \<and> mode s = IDLE then handleGenerate s else s)"
| "step png env Click_queue_Clear s =
     (if batchQueue s \<noteq> [] then s\<lparr>batchQueue := []\<rparr> else s)"
| "step png env (Click_queue_image i) s =
     (if i < length (batchQueue s) then
        (let item = objects s (batchQueue s ! i)
         in s\<lparr>currentImage :=
                 \<lparr>url = Some (b_url item), base64 = Some (b_base64 item), beforeUrl = None,
                  resolution = b_resolution item, isUpscaled = (b_status item = Status_done),
                  upscaleType = None\<rparr>\<rparr>)
      else s)"
| "step png env (Click_queue_remove i) s =
     (if i < length (batchQueue s)
      then removeFromBatch (b_id (objects s (batchQueue s ! i))) s else s)"
| "step png env Click_Upscale_All s =
     (if batchQueue s \<noteq> [] \<and> mode s = IDLE
         \<and> \<not> list_all (\<lambda>a. b_status (objects s a) = Status_done) (batchQueue s)
      then handleBatchUpscale s else s)"
| "step png env Click_Magic_Hand s =
     (if mode s = IDLE \<and> truthy (url (currentImage s)) then startMagicHand s else s)"
| "step png env Click_Auto_Erase s =
     (if mode s = IDLE \<and> truthy (url (currentImage s)) then handleRemoveWatermark s else s)"
| "step png env Click_magic_Cancel s = (if mode s = MAGIC_HAND then s\<lparr>mode := IDLE\<rparr> else s)"
| "step png env Click_Execute_Erase s = (if mode s = MAGIC_HAND then castMagicHand s else s)"
| "step png env Click_Compare s =
     (if toolbar_shown s \<and> truthy (beforeUrl (currentImage s))
      then s\<lparr>isComparing := \<not> isComparing s\<rparr> else s)"
| "step png env Click_Zoom_Viewer s = (if toolbar_shown s then startZoom s else s)"
| "step png env Click_Advanced_Crop s =
     (if toolbar_shown s then startCrop (Target_image (currentImage s)) s else s)"
| "step png env Click_Upgrade_4K s =
     (if toolbar_shown s \<and> resolution (currentImage s) \<noteq> ''4K''
      then handleUpscale4K env s else s)"
| "step png env Click_Edit_Selection s =
     (if toolbar_shown s \<and> trim (prompt s) \<noteq> [] then handleEdit s else s)"
| "step png env Click_image s =
     (if toolbar_shown s \<and> \<not> (isComparing s \<and> truthy (beforeUrl (currentImage s)))
      then startZoom s else s)"
| "step png env Click_results_Clear s = (if results s \<noteq> [] then s\<lparr>results := []\<rparr> else s)"
| "step png env (Click_result_View i) s =
     (if i < length (results s) then
        (let res = results s ! i
         in s\<lparr>currentImage :=
                 \<lparr>url = Some (r_url res), base64 = Some (r_base64 res), beforeUrl = None,
                  resolution = r_resolution res, isUpscaled = True, upscaleType = None\<rparr>,
               isComparing := False\<rparr>)
      else s)"
| "step png env (Click_result_remove i) s =
     (if i < length (results s)
      then s\<lparr>results := filter (\<lambda>r. r_id r \<noteq> r_id (results s ! i)) (results s)\<rparr>
      else s)"
| "step png env (Click_result_Crop i) s =
     (if i < length (results s) then startCrop (Target_result (results s ! i)) s else s)"
| "step png env (Zoom_wheel deltaY) s =
     (if zoom_modal_shown s then handleZoomWheel deltaY s else s)"
| "step png env Click_zoom_out s = (if zoom_modal_shown s then zoomOut_onClick s else s)"
| "step png env Click_zoom_Reset s = (if zoom_modal_shown s then resetZoom_onClick s else s)"
| "step png env Click_zoom_in s = (if zoom_modal_shown s then zoomIn_onClick s else s)"
| "step png env Click_zoom_close s = (if zoom_modal_shown s then s\<lparr>mode := IDLE\<rparr> else s)"
| "step png env Zoom_mouse_down s = (if zoom_modal_shown s then handleZoomMouseDown s else s)"
| "step png env (Zoom_mouse_move mx my) s =
     (if zoom_modal_shown s then handleZoomMouseMove mx my s else s)"
| "step png env Mouse_up s = handleZoomMouseUp s"
| "step png env Click_Undo s =
     (if mode s = CROPPING \<and> 0 < cropHistoryIndex s then undoCrop s else s)"
| "step png env Click_Redo s =
     (if mode s = CROPPING \<and> cropHistoryIndex s < int (length (cropHistory s)) - 1
      then redoCrop s else s)"
| "step png env (Crop_mouse_move mx my) s =
     (if mode s = CROPPING then handleCropMouseMove mx my s else s)"
| "step png env (Crop_handle_down hnd) s =
     (if mode s = CROPPING then s\<lparr>activeHandle := Some hnd\<rparr> else s)"
| "step png env (Click_ratio r) s = (if mode s = CROPPING then updateCropBox r s else s)"
| "step png env Click_Finalize_Crop s =
     (case executeCrop s of
        None \<Rightarrow> s
      | Some c \<Rightarrow> s\<lparr>pending := pending s @ [ImageLoad_call c]\<rparr>)"
| "step png env Click_Discard s = (if mode s = CROPPING then s\<lparr>mode := IDLE\<rparr> else s)"
| "step png env (Transfer_image c) s =
     s\<lparr>currentImage :=
         \<lparr>url = Some c, base64 = Some c, beforeUrl = None, resolution = ''Board'',
          isUpscaled = False, upscaleType = None\<rparr>,
       isComparing := False\<rparr>"
| "step png env (Transfer_text c) s = s\<lparr>prompt := c\<rparr>"
| "step png env Click_history_Clear s = s\<lparr>history := []\<rparr>"
| "step png env (Click_history_item i) s =
     (if i < length (history s) then
        s\<lparr>currentImage :=
            \<lparr>url = Some (h_url (history s ! i)), base64 = Some (h_url (history s ! i)),
             beforeUrl = None, resolution = ''1K'', isUpscaled = False, upscaleType = None\<rparr>,
          isComparing := False\<rparr>
      else s)"
| "step png env Click_error_dismiss s = (if truthy (error s) then s\<lparr>error := None\<rparr> else s)"
| "step png env (Settled k out) s =
     (if k < length (pending s) then
        (case settle png env (pending s ! k) out
                (s\<lparr>pending := take k (pending s) @ drop (Suc k) (pending s)\<rparr>) of
           None \<Rightarrow> s
         | Some s1 \<Rightarrow> s1)
      else s)"

text \<open>A sequence of events, each with the environment in which it happens.\<close>

fun run :: "(string \<Rightarrow> PixelRect \<Rightarrow> string) \<Rightarrow> (Env \<times> Event) list \<Rightarrow> App \<Rightarrow> App" where
  "run png [] s = s"
| "run png ((env, ev) # evs) s = run png evs (step png env ev s)"

text \<open>
  The four activities of which at most one may be going on: cropping, zooming, mask
  painting, and a call of the image service that has not settled.
\<close>

definition external_call_pending :: "App \<Rightarrow> bool" where
  "external_call_pending s = list_ex is_service_call (pending s)"

definition active_count :: "App \<Rightarrow> nat" where
  "active_count s =
     (if mode s = CROPPING then 1 else 0) + (if mode s = ZOOMING then 1 else 0)
     + (if mode s = MAGIC_HAND then 1 else 0) + (if external_call_pending s then 1 else 0)"

subsection \<open>Concrete inputs\<close>

text \<open>An image as \<^verbatim>\<open>handleFileUpload\<close> stores it, and an environment.\<close>

definition loaded_image :: ImageState where
  "loaded_image =
     \<lparr>url = Some ''data:a'', base64 = Some ''data:a'', beforeUrl = None,
      resolution = ''Original'', isUpscaled = False, upscaleType = None\<rparr>"

definition env0 :: Env where
  "env0 = \<lparr>aistudio = False, rid = ''r1'', now = 1\<rparr>"

text \<open>A queue entry as the \<^verbatim>\<open>onloadend\<close> callback of \<^verbatim>\<open>handleFileUpload\<close> builds it.\<close>

definition queue_item :: "string \<Rightarrow> string \<Rightarrow> BatchImage" where
  "queue_item i b =
     \<lparr>b_id = i, b_url = b, b_base64 = b, b_status = Status_idle, b_resolution = ''Original'',
      b_upscaleType = None, b_error = None\<rparr>"

text \<open>
  A stand-in for the canvas, and event sequences from the initial state: a file is
  chosen and read; then the image is upscaled, a prompt typed and a generation started;
  or the mask editor is opened and its call fails; or the crop box is moved to the top
  edge and its top left handle grabbed; or the ratio is changed and the crop box
  dragged; or the zoom viewer is opened, zoomed in and panned, and the mouse button
  released; or the crop of the current image is opened.
\<close>

definition png0 :: "string \<Rightarrow> PixelRect \<Rightarrow> string" where
  "png0 b r = b"

definition trace_loaded :: "(Env \<times> Event) list" where
  "trace_loaded = [(env0, Choose_files 1), (env0, Settled 0 (File_outcome ''data:a''))]"

definition trace_generating :: "(Env \<times> Event) list" where
  "trace_generating =
     trace_loaded @
     [(env0, Click_Upgrade_4K), (env0, Settled 0 (Image_outcome (Inr ''data:b''))),
      (env0, Type_prompt ''cat''), (env0, Click_Generate)]"

definition trace_erase_failed :: "(Env \<times> Event) list" where
  "trace_erase_failed =
     trace_loaded @
     [(env0, Click_Magic_Hand), (env0, Click_Execute_Erase),
      (env0, Settled 0 (Image_outcome (Inl (JsError (Some ''quota exceeded'')))))]"

definition trace_tl_at_top :: "(Env \<times> Event) list" where
  "trace_tl_at_top =
     trace_loaded @
     [(env0, Click_Advanced_Crop), (env0, Crop_handle_down H_center),
      (env0, Crop_mouse_move 50 0), (env0, Crop_handle_down H_tl)]"

definition trace_dragged :: "(Env \<times> Event) list" where
  "trace_dragged =
     trace_loaded @
     [(env0, Click_Advanced_Crop), (env0, Click_ratio Ratio_16_9),
      (env0, Crop_handle_down H_center), (env0, Crop_mouse_move 60 60)]"

definition trace_panned :: "(Env \<times> Event) list" where
  "trace_panned =
     trace_loaded @
     [(env0, Click_Zoom_Viewer), (env0, Click_zoom_in), (env0, Zoom_mouse_down),
      (env0, Zoom_mouse_move 30 40), (env0, Mouse_up)]"


text \<open>
  Three files are chosen and read, each with an id of its own. Then \<^verbatim>\<open>Upscale All\<close>
  is clicked, the first call succeeds, the second fails and the third succeeds. Or
  \<^verbatim>\<open>Upscale All\<close> is clicked, the first call succeeds, and while the second call is
  pending the user clicks \<^verbatim>\<open>Crop\<close> on the library entry of the first result,
  \<^verbatim>\<open>Discard Changes\<close> in the crop modal and \<^verbatim>\<open>Upscale All\<close> again.
\<close>

definition env_id :: "string \<Rightarrow> Env" where
  "env_id i = \<lparr>aistudio = False, rid = i, now = 1\<rparr>"

definition trace_three_loaded :: "(Env \<times> Event) list" where
  "trace_three_loaded =
     [(env0, Choose_files 3), (env_id ''f1'', Settled 0 (File_outcome ''data:a'')),
      (env_id ''f2'', Settled 0 (File_outcome ''data:b'')),
      (env_id ''f3'', Settled 0 (File_outcome ''data:c''))]"

definition trace_batch_alone :: "(Env \<times> Event) list" where
  "trace_batch_alone =
     trace_three_loaded @
     [(env0, Click_Upscale_All), (env0, Settled 0 (Image_outcome (Inr ''data:A''))),
      (env0, Settled 0 (Image_outcome (Inl (JsError (Some ''quota exceeded''))))),
      (env0, Settled 0 (Image_outcome (Inr ''data:C'')))]"

definition trace_two_loops :: "(Env \<times> Event) list" where
  "trace_two_loops =
     trace_three_loaded @
     [(env0, Click_Upscale_All), (env0, Settled 0 (Image_outcome (Inr ''data:A''))),
      (env0, Click_result_Crop 0), (env0, Click_Discard), (env0, Click_Upscale_All)]"

text \<open>The state after \<open>trace_three_loaded\<close>.\<close>

definition three_loaded_app :: App where
  "three_loaded_app =
     \<lparr>mode = IDLE, prompt = [],
      currentImage =
        \<lparr>url = Some ''data:c'', base64 = Some ''data:c'', beforeUrl = None,
         resolution = ''Original'', isUpscaled = False, upscaleType = None\<rparr>,
      objects =
        (\<lambda>a. no_entry)
          (1 := queue_item ''f1'' ''data:a'', 2 := queue_item ''f2'' ''data:b'',
           3 := queue_item ''f3'' ''data:c''),
      batchQueue = [1, 2, 3], results = [], history = [], error = None, isComparing = False,
      cropData = None, cropRatio = Ratio_1_1, cropPos = \<lparr>px = 50, py = 50\<rparr>,
      cropSize = \<lparr>sw = 40, sh = 40\<rparr>, activeHandle = None, zoomScale = 1,
      zoomTranslate = \<lparr>px = 0, py = 0\<rparr>, isPanning = False, cropHistory = [],
      cropHistoryIndex = - 1, pending = []\<rparr>"

text \<open>The right and the bottom edge of the crop box: its bottom right corner.\<close>

definition crop_right :: "App \<Rightarrow> real" where
  "crop_right s = px (cropPos s) + sw (cropSize s) / 2"

definition crop_bottom :: "App \<Rightarrow> real" where
  "crop_bottom s = py (cropPos s) + sh (cropSize s) / 2"

text \<open>The state after \<open>trace_loaded\<close>.\<close>

definition loaded_app :: App where
  "loaded_app =
     \<lparr>mode = IDLE, prompt = [], currentImage = loaded_image,
      objects = (\<lambda>a. no_entry)(1 := queue_item ''r1'' ''data:a''), batchQueue = [1],
      results = [], history = [], error = None, isComparing = False, cropData = None, cropRatio = Ratio_1_1,
      cropPos = \<lparr>px = 50, py = 50\<rparr>, cropSize = \<lparr>sw = 40, sh = 40\<rparr>, activeHandle = None,
      zoomScale = 1, zoomTranslate = \<lparr>px = 0, py = 0\<rparr>, isPanning = False,
      cropHistory = [], cropHistoryIndex = - 1, pending = []\<rparr>"

text \<open>
  In the mode \<^verbatim>\<open>ERROR\<close> with an empty result library and nothing pending but file
  reads.
\<close>

fun is_file_read :: "Call \<Rightarrow> bool" where
  "is_file_read (ReadFile_call ci) = True"
| "is_file_read c = False"

definition stuck_in_error :: "App \<Rightarrow> bool" where
  "stuck_in_error s = (mode s = ERROR \<and> results s = [] \<and> list_all is_file_read (pending s))"

text \<open>The bounds of the zoom scale.\<close>

definition zoom_in_range :: "App \<Rightarrow> bool" where
  "zoom_in_range s = (0.5 \<le> zoomScale s \<and> zoomScale s \<le> 10)"

section \<open>Properties\<close>

subsection \<open>Evaluating event sequences\<close>

declare handleBatchUpscale_from.simps [simp del]

lemmas handler_defs =
  handleFileUpload_def handleFileUpload_onloadend_def truthy_def or_else_def toolbar_shown_def
  zoom_modal_shown_def handleUpscale4K_def handleUpscale4K_upscale_def handleUpscale4K_then_def
  addResult_def addToHistory_def handleGenerate_def trim_def is_space_def startCrop_def
  startMagicHand_def castMagicHand_def castMagicHand_then_def settle_def
  startZoom_def zoomIn_onClick_def zoomOut_onClick_def resetZoom_onClick_def
  handleZoomMouseDown_def handleZoomMouseMove_def handleZoomMouseUp_def handleZoomWheel_def
  handleCropMouseMove_def handleCropMouseMove_corner_def targetRatio_def updateCropBox_def
  pushCropHistory_def undoCrop_def redoCrop_def js_slice0_def js_index_def Let_def
  new_object_def queue_def executeCrop_def executeCrop_onload_def cropRect_def
  removeFromBatch_def handleBatchUpscale_def handleBatchUpscale_then_def
  handleBatchUpscale_item_def handleBatchUpscale_from.simps

lemma loaded_state: "run png0 trace_loaded App_init = loaded_app"
  by (simp add: trace_loaded_def env0_def App_init_def loaded_app_def loaded_image_def
      queue_item_def handler_defs)

lemma run_append: "run png (xs @ ys) s = run png ys (run png xs s)"
  by (induction xs arbitrary: s) auto

lemma three_loaded_state: "run png0 trace_three_loaded App_init = three_loaded_app"
  by (simp add: trace_three_loaded_def env0_def env_id_def App_init_def three_loaded_app_def
      queue_item_def handler_defs numeral_2_eq_2 numeral_3_eq_3)

subsection \<open>Crop history\<close>

lemma startCrop_history:
  "truthy (target_base64 item) \<Longrightarrow>
   cropHistory (startCrop item s) =
     [\<lparr>cs_pos = \<lparr>px = 50, py = 50\<rparr>, cs_size = \<lparr>sw = 40, sh = 40\<rparr>, cs_ratio = Ratio_1_1\<rparr>]
   \<and> cropHistoryIndex (startCrop item s) = 0"
  by (simp add: startCrop_def Let_def)

lemma pushCropHistory_history:
  "cropHistory (pushCropHistory p z r s) =
     js_slice0 (cropHistory s) (cropHistoryIndex s + 1) @ [\<lparr>cs_pos = p, cs_size = z, cs_ratio = r\<rparr>]"
  by (simp add: pushCropHistory_def Let_def)

lemma pushCropHistory_index:
  "cropHistoryIndex (pushCropHistory p z r s) =
     int (length (js_slice0 (cropHistory s) (cropHistoryIndex s + 1)))"
  by (simp add: pushCropHistory_def Let_def)

lemma undoCrop_history: "cropHistory (undoCrop s) = cropHistory s"
  by (simp add: undoCrop_def split: option.splits)

lemma undoCrop_index:
  "0 < cropHistoryIndex s \<Longrightarrow> cropHistoryIndex s \<le> int (length (cropHistory s)) \<Longrightarrow>
   cropHistoryIndex (undoCrop s) = cropHistoryIndex s - 1"
  by (simp add: undoCrop_def js_index_def split: option.splits)

lemma redoCrop_at_end:
  "int (length (cropHistory s)) - 1 \<le> cropHistoryIndex s \<Longrightarrow> redoCrop s = s"
  by (simp add: redoCrop_def)

text \<open>
  C3. In a crop session opened by \<^verbatim>\<open>startCrop\<close>, pushing a 40 by 40 state, pushing
  a 30 by 30 state, undoing and pushing a 20 by 20 state leaves a history of length 3
  with the index at 2: the entry of \<^verbatim>\<open>startCrop\<close>, the first push and the last push.
  A redo then changes nothing, and the 30 by 30 entry is no longer in the history. The
  positions and ratios pushed are arbitrary.
\<close>

theorem crop_history_push_undo_push:
  assumes "truthy (target_base64 item)"
  shows "let s0 = startCrop item s;
             s4 = pushCropHistory p3 \<lparr>sw = 20, sh = 20\<rparr> r3
                    (undoCrop
                      (pushCropHistory p2 \<lparr>sw = 30, sh = 30\<rparr> r2
                        (pushCropHistory p1 \<lparr>sw = 40, sh = 40\<rparr> r1 s0)))
         in length (cropHistory s4) = 3
            \<and> cropHistoryIndex s4 = 2
            \<and> redoCrop s4 = s4
            \<and> cropHistory s4 =
                [\<lparr>cs_pos = \<lparr>px = 50, py = 50\<rparr>, cs_size = \<lparr>sw = 40, sh = 40\<rparr>,
                  cs_ratio = Ratio_1_1\<rparr>,
                 \<lparr>cs_pos = p1, cs_size = \<lparr>sw = 40, sh = 40\<rparr>, cs_ratio = r1\<rparr>,
                 \<lparr>cs_pos = p3, cs_size = \<lparr>sw = 20, sh = 20\<rparr>, cs_ratio = r3\<rparr>]
            \<and> \<lparr>cs_pos = p2, cs_size = \<lparr>sw = 30, sh = 30\<rparr>, cs_ratio = r2\<rparr>
                \<notin> set (cropHistory s4)"
proof -
  define s0 where "s0 = startCrop item s"
  define s1 where "s1 = pushCropHistory p1 \<lparr>sw = 40, sh = 40\<rparr> r1 s0"
  define s2 where "s2 = pushCropHistory p2 \<lparr>sw = 30, sh = 30\<rparr> r2 s1"
  define s3 where "s3 = undoCrop s2"
  define s4 where "s4 = pushCropHistory p3 \<lparr>sw = 20, sh = 20\<rparr> r3 s3"
  have h0: "cropHistory s0 =
      [\<lparr>cs_pos = \<lparr>px = 50, py = 50\<rparr>, cs_size = \<lparr>sw = 40, sh = 40\<rparr>, cs_ratio = Ratio_1_1\<rparr>]"
    and i0: "cropHistoryIndex s0 = 0"
    using startCrop_history [OF assms, of s] by (simp_all add: s0_def)
  have h1: "cropHistory s1 =
      cropHistory s0 @ [\<lparr>cs_pos = p1, cs_size = \<lparr>sw = 40, sh = 40\<rparr>, cs_ratio = r1\<rparr>]"
    and i1: "cropHistoryIndex s1 = 1"
    by (simp_all add: s1_def pushCropHistory_history pushCropHistory_index h0 i0 js_slice0_def)
  have h2: "cropHistory s2 =
      cropHistory s1 @ [\<lparr>cs_pos = p2, cs_size = \<lparr>sw = 30, sh = 30\<rparr>, cs_ratio = r2\<rparr>]"
    and i2: "cropHistoryIndex s2 = 2"
    by (simp_all add: s2_def pushCropHistory_history pushCropHistory_index h1 h0 i1
        js_slice0_def)
  have h3: "cropHistory s3 = cropHistory s2" and i3: "cropHistoryIndex s3 = 1"
    by (simp_all add: s3_def undoCrop_history undoCrop_index h2 h1 h0 i2)
  have h4: "cropHistory s4 =
      [\<lparr>cs_pos = \<lparr>px = 50, py = 50\<rparr>, cs_size = \<lparr>sw = 40, sh = 40\<rparr>, cs_ratio = Ratio_1_1\<rparr>,
       \<lparr>cs_pos = p1, cs_size = \<lparr>sw = 40, sh = 40\<rparr>, cs_ratio = r1\<rparr>,
       \<lparr>cs_pos = p3, cs_size = \<lparr>sw = 20, sh = 20\<rparr>, cs_ratio = r3\<rparr>]"
    and i4: "cropHistoryIndex s4 = 2"
    by (simp_all add: s4_def pushCropHistory_history pushCropHistory_index h3 h2 h1 h0 i3
        js_slice0_def)
  have r4: "redoCrop s4 = s4"
    by (rule redoCrop_at_end) (simp add: h4 i4)
  have n4: "\<lparr>cs_pos = p2, cs_size = \<lparr>sw = 30, sh = 30\<rparr>, cs_ratio = r2\<rparr> \<notin> set (cropHistory s4)"
    by (simp add: h4)
  show ?thesis
    unfolding Let_def
    using h4 i4 r4 n4 by (simp add: s4_def s3_def s2_def s1_def s0_def)
qed

theorem crop_history_push_undo_push_witness:
  "truthy (target_base64 (Target_image loaded_image))
   \<and> (let s0 = startCrop (Target_image loaded_image) App_init;
           s4 = pushCropHistory \<lparr>px = 50, py = 50\<rparr> \<lparr>sw = 20, sh = 20\<rparr> Ratio_Free
                  (undoCrop
                    (pushCropHistory \<lparr>px = 50, py = 50\<rparr> \<lparr>sw = 30, sh = 30\<rparr> Ratio_Free
                      (pushCropHistory \<lparr>px = 50, py = 50\<rparr> \<lparr>sw = 40, sh = 40\<rparr> Ratio_Free
                         s0)))
       in length (cropHistory s4) = 3 \<and> cropHistoryIndex s4 = 2 \<and> redoCrop s4 = s4)"
proof -
  have h: "truthy (target_base64 (Target_image loaded_image))"
    by (simp add: truthy_def loaded_image_def)
  show ?thesis
    using h crop_history_push_undo_push [OF h, of App_init "\<lparr>px = 50, py = 50\<rparr>" Ratio_Free
        "\<lparr>px = 50, py = 50\<rparr>" Ratio_Free "\<lparr>px = 50, py = 50\<rparr>" Ratio_Free]
    by (simp add: Let_def)
qed

subsection \<open>Committing a crop of the current image\<close>



subsection \<open>Committing a crop of a queue or library entry\<close>

lemma foldr_max_ge: "a \<in> set xs \<Longrightarrow> a \<le> foldr max xs (0::nat)"
  by (induction xs) (auto simp: max_def)

lemma new_object_above: "a \<in> set (batchQueue s) \<Longrightarrow> a < new_object s"
  using foldr_max_ge [of a "batchQueue s @ concat (map call_objects (pending s))"]
  by (simp add: new_object_def)

text \<open>The objects below the first new address are what they were.\<close>

lemma crop_entries_below:
  "x < n \<Longrightarrow> snd (crop_entries k cropped n h as) x = h x"
proof (induction as arbitrary: n h)
  case Nil
  then show ?case by simp
next
  case (Cons a as)
  show ?case
  proof (cases "b_id (h a) = k")
    case True
    let ?h = "h(n := (h a)\<lparr>b_url := cropped, b_base64 := cropped, b_resolution := ''Cropped''\<rparr>)"
    let ?r = "crop_entries k cropped (Suc n) ?h as"
    have "snd ?r x = ?h x"
      by (rule Cons.IH) (use Cons.prems in simp)
    also have "?h x = h x" using Cons.prems by simp
    finally have below: "snd ?r x = h x" .
    have eq: "crop_entries k cropped n h (a # as) = (n # fst ?r, snd ?r)"
      using True by (simp add: split_beta Let_def)
    show ?thesis unfolding eq snd_conv by (rule below)
  next
    case False
    let ?r = "crop_entries k cropped n h as"
    have below: "snd ?r x = h x"
      by (rule Cons.IH) (rule Cons.prems)
    have eq: "crop_entries k cropped n h (a # as) = (a # fst ?r, snd ?r)"
      using False by (simp add: split_beta Let_def)
    show ?thesis unfolding eq snd_conv by (rule below)
  qed
qed

text \<open>
  When the new addresses are above those of the array, the values of the new array are
  those of the old one with the entries of the id \<open>k\<close> replaced.
\<close>

lemma crop_entries_values:
  assumes "\<forall>a\<in>set as. a < n"
  shows "map (snd (crop_entries k cropped n h as)) (fst (crop_entries k cropped n h as)) =
         map (\<lambda>item::BatchImage. if b_id item = k
                      then item\<lparr>b_url := cropped, b_base64 := cropped,
                                b_resolution := ''Cropped''\<rparr>
                      else item)
           (map h as)"
  using assms
proof (induction as arbitrary: n h)
  case Nil
  then show ?case by simp
next
  case (Cons a as)
  let ?f = "\<lambda>item::BatchImage. if b_id item = k
                    then item\<lparr>b_url := cropped, b_base64 := cropped, b_resolution := ''Cropped''\<rparr>
                    else item"
  let ?l = "crop_entries k cropped n h (a # as)"
  from Cons.prems have a: "a < n" and rest: "\<forall>b\<in>set as. b < n" by simp_all
  show ?case
  proof (cases "b_id (h a) = k")
    case True
    let ?h = "h(n := (h a)\<lparr>b_url := cropped, b_base64 := cropped, b_resolution := ''Cropped''\<rparr>)"
    let ?r = "crop_entries k cropped (Suc n) ?h as"
    have "\<forall>b\<in>set as. b < Suc n" using rest by auto
    from Cons.IH [OF this, of ?h] have ih: "map (snd ?r) (fst ?r) = map ?f (map ?h as)" .
    have same: "map ?h as = map h as" using rest by auto
    have "snd ?r n = ?h n"
      using crop_entries_below [of n "Suc n" k cropped ?h as] by simp
    then have first: "snd ?r n = ?f (h a)" using True by simp
    have eq: "?l = (n # fst ?r, snd ?r)"
      using True by (simp add: split_beta Let_def)
    have "map (snd ?l) (fst ?l) = snd ?r n # map (snd ?r) (fst ?r)"
      unfolding eq by simp
    also have "\<dots> = ?f (h a) # map ?f (map h as)"
      by (simp only: first ih same)
    also have "\<dots> = map ?f (map h (a # as))" by simp
    finally show ?thesis .
  next
    case False
    let ?r = "crop_entries k cropped n h as"
    from Cons.IH [OF rest, of h] have ih: "map (snd ?r) (fst ?r) = map ?f (map h as)" .
    have "snd ?r a = h a"
      using crop_entries_below [of a n k cropped h as] a by simp
    then have first: "snd ?r a = ?f (h a)" using False by simp
    have eq: "?l = (a # fst ?r, snd ?r)"
      using False by (simp add: split_beta Let_def)
    have "map (snd ?l) (fst ?l) = snd ?r a # map (snd ?r) (fst ?r)"
      unfolding eq by simp
    also have "\<dots> = ?f (h a) # map ?f (map h as)"
      by (simp only: first ih)
    also have "\<dots> = map ?f (map h (a # as))" by simp
    finally show ?thesis .
  qed
qed

text \<open>
  C10. When the target of a committed crop is not the current image (\<^verbatim>\<open>cropData.id\<close>
  is not \<^verbatim>\<open>'current'\<close>), the current image is what it was. The entries of the queue
  are the old entries with those of that id replaced by their cropped versions, so the
  entries of any other id are what they were, and the library gets one new entry
  exactly when the id is that of a library entry. This holds for any state in which
  the image load completes, whatever the render that started it.
\<close>

theorem commit_crop_other_target:
  assumes "cd_id (cc_cropData c) \<noteq> ''current''"
  shows "let s1 = executeCrop_onload png env realW realH c s;
             cropped = png (cd_base64 (cc_cropData c))
                         (cropRect realW realH (cc_cropPos c) (cc_cropSize c))
         in currentImage s1 = currentImage s
            \<and> queue s1 =
                map (\<lambda>item. if b_id item = cd_id (cc_cropData c)
                             then item\<lparr>b_url := cropped, b_base64 := cropped,
                                       b_resolution := ''Cropped''\<rparr>
                             else item)
                  (queue s)
            \<and> filter (\<lambda>item. b_id item \<noteq> cd_id (cc_cropData c)) (queue s1) =
                filter (\<lambda>item. b_id item \<noteq> cd_id (cc_cropData c)) (queue s)
            \<and> results s1 =
                (if list_ex (\<lambda>r. r_id r = cd_id (cc_cropData c)) (cc_results c)
                 then \<lparr>r_id = rid env, r_url = cropped, r_base64 = cropped,
                       r_resolution = ''Cropped'', r_upscaleType = ''Manual Edit'',
                       r_timestamp = now env\<rparr> # results s
                 else results s)"
proof -
  define k where "k = cd_id (cc_cropData c)"
  define cropped where
    "cropped = png (cd_base64 (cc_cropData c)) (cropRect realW realH (cc_cropPos c) (cc_cropSize c))"
  define s2 where
    "s2 = (if list_ex (\<lambda>r. r_id r = k) (cc_results c)
           then addResult env cropped cropped ''Cropped'' ''Manual Edit'' s else s)"
  define g :: "BatchImage \<Rightarrow> BatchImage" where
    "g = (\<lambda>item. if b_id item = k
                 then item\<lparr>b_url := cropped, b_base64 := cropped, b_resolution := ''Cropped''\<rparr>
                 else item)"
  obtain q h where r: "crop_entries k cropped (new_object s2) (objects s2) (batchQueue s2) = (q, h)"
    by (cases "crop_entries k cropped (new_object s2) (objects s2) (batchQueue s2)")
  have s2: "objects s2 = objects s" "batchQueue s2 = batchQueue s"
    "currentImage s2 = currentImage s"
    by (simp_all add: s2_def addResult_def)
  have res: "results s2 =
      (if list_ex (\<lambda>r. r_id r = k) (cc_results c)
       then \<lparr>r_id = rid env, r_url = cropped, r_base64 = cropped, r_resolution = ''Cropped'',
             r_upscaleType = ''Manual Edit'', r_timestamp = now env\<rparr> # results s
       else results s)"
    by (simp add: s2_def addResult_def)
  have s1: "executeCrop_onload png env realW realH c s =
      s2\<lparr>objects := h, batchQueue := q, mode := IDLE, cropData := None\<rparr>"
    using assms r
    by (simp add: executeCrop_onload_def Let_def k_def [symmetric] cropped_def [symmetric]
        s2_def [symmetric])
  have "\<forall>a\<in>set (batchQueue s2). a < new_object s2"
    by (simp add: new_object_above)
  from crop_entries_values [OF this, of k cropped "objects s2"] r
  have vals: "map h q = map g (queue s)"
    by (simp add: g_def queue_def s2)
  have f: "filter (\<lambda>item. b_id item \<noteq> k) (map g xs) = filter (\<lambda>item. b_id item \<noteq> k) xs"
    for xs
    by (induction xs) (auto simp: g_def)
  have cur: "currentImage (executeCrop_onload png env realW realH c s) = currentImage s"
    by (simp add: s1 s2)
  have qu: "queue (executeCrop_onload png env realW realH c s) = map g (queue s)"
    using vals by (simp add: s1 queue_def)
  have re: "results (executeCrop_onload png env realW realH c s) =
      (if list_ex (\<lambda>r. r_id r = k) (cc_results c)
       then \<lparr>r_id = rid env, r_url = cropped, r_base64 = cropped, r_resolution = ''Cropped'',
             r_upscaleType = ''Manual Edit'', r_timestamp = now env\<rparr> # results s
       else results s)"
    by (simp add: s1 res)
  have fl: "filter (\<lambda>item. b_id item \<noteq> k) (map g (queue s)) =
            filter (\<lambda>item. b_id item \<noteq> k) (queue s)"
    by (rule f)
  show ?thesis
    unfolding Let_def k_def [symmetric] cropped_def [symmetric] cur qu re fl
    by (simp add: g_def)
qed

theorem commit_crop_other_target_witness:
  "cd_id \<lparr>cd_id = ''b2'', cd_base64 = ''data:b''\<rparr> \<noteq> ''current''
   \<and> (let c = \<lparr>cc_cropData = \<lparr>cd_id = ''b2'', cd_base64 = ''data:b''\<rparr>,
                cc_cropPos = \<lparr>px = 50, py = 50\<rparr>, cc_cropSize = \<lparr>sw = 40, sh = 40\<rparr>,
                cc_previousUrl = Some ''data:a'', cc_results = []\<rparr>;
           s = App_init\<lparr>currentImage := loaded_image,
                 objects := (\<lambda>a. no_entry)
                   (1 := queue_item ''b1'' ''data:a'', 2 := queue_item ''b2'' ''data:b''),
                 batchQueue := [1, 2]\<rparr>;
           s1 = executeCrop_onload (\<lambda>b r. ''data:c'') env0 1000 1000 c s
       in currentImage s1 = loaded_image
          \<and> queue s1 =
              [queue_item ''b1'' ''data:a'',
               (queue_item ''b2'' ''data:b'')
                 \<lparr>b_url := ''data:c'', b_base64 := ''data:c'', b_resolution := ''Cropped''\<rparr>]
          \<and> results s1 = [])"
proof -
  have h: "cd_id (cc_cropData \<lparr>cc_cropData = \<lparr>cd_id = ''b2'', cd_base64 = ''data:b''\<rparr>,
                cc_cropPos = \<lparr>px = 50, py = 50\<rparr>, cc_cropSize = \<lparr>sw = 40, sh = 40\<rparr>,
                cc_previousUrl = Some ''data:a'', cc_results = []\<rparr>) \<noteq> ''current''"
    by simp
  show ?thesis
    using commit_crop_other_target [OF h, where png = "\<lambda>b r. ''data:c''" and realW = 1000
        and realH = 1000 and env = env0
        and s = "App_init\<lparr>currentImage := loaded_image,
                 objects := (\<lambda>a. no_entry)
                   (1 := queue_item ''b1'' ''data:a'', 2 := queue_item ''b2'' ''data:b''),
                 batchQueue := [1, 2]\<rparr>"]
    by (simp add: Let_def queue_item_def App_init_def queue_def)
qed

subsection \<open>Failed calls and the current image\<close>

text \<open>
  C7. None of the five operations on the current image touches \<^verbatim>\<open>currentImage\<close> when
  its call fails: neither the part of the handler before the \<^verbatim>\<open>await\<close>, nor the part
  that runs when the promise is rejected (for \<^verbatim>\<open>handleUpscale4K\<close>, nor any step around
  the calls of \<^verbatim>\<open>window.aistudio\<close>). The statement about the second part holds in
  every state, so also when other events came in between.
\<close>

theorem failed_call_keeps_current_image:
  "currentImage (handleGenerate s) = currentImage s
   \<and> currentImage (handleGenerate_then env p (Inl err) s) = currentImage s
   \<and> currentImage (handleEdit s) = currentImage s
   \<and> currentImage (handleEdit_then env ci p (Inl err) s) = currentImage s
   \<and> currentImage (handleRemoveWatermark s) = currentImage s
   \<and> currentImage (handleRemoveWatermark_then env ci (Inl err) s) = currentImage s
   \<and> currentImage (castMagicHand s) = currentImage s
   \<and> currentImage (castMagicHand_then env ci (Inl err) s) = currentImage s
   \<and> currentImage (handleUpscale4K env s) = currentImage s
   \<and> currentImage (handleUpscale4K_hasKey ci hk s) = currentImage s
   \<and> currentImage (handleUpscale4K_openKey ci ok s) = currentImage s
   \<and> currentImage (handleUpscale4K_then env ci (Inl err) s) = currentImage s
   \<and> currentImage (handleUpscale4K_openKey_in_catch err ok s) = currentImage s"
  by (simp add: handleGenerate_def handleGenerate_then_def handleEdit_def handleEdit_then_def
      handleRemoveWatermark_def handleRemoveWatermark_then_def castMagicHand_def
      castMagicHand_then_def handleUpscale4K_def handleUpscale4K_hasKey_def
      handleUpscale4K_openKey_def handleUpscale4K_then_def handleUpscale4K_openKey_in_catch_def
      handleUpscale4K_upscale_def handleUpscale4K_catch_def split: sum.splits)

text \<open>
  When the call succeeds, one update replaces the current image: the new data as
  \<open>url\<close> and \<open>base64\<close>, and the \<open>url\<close> of the image the handler was called on as
  \<open>beforeUrl\<close>.
\<close>

lemma successful_call_replaces_current_image:
  "currentImage (handleGenerate_then env p (Inr u) s) =
     \<lparr>url = Some u, base64 = Some u, beforeUrl = None, resolution = ''1K'',
      isUpscaled = False, upscaleType = None\<rparr>"
  "currentImage (handleEdit_then env ci p (Inr u) s) =
     ci\<lparr>url := Some u, base64 := Some u, beforeUrl := url ci, isUpscaled := False,
        resolution := ''1K''\<rparr>"
  "currentImage (handleRemoveWatermark_then env ci (Inr u) s) =
     ci\<lparr>url := Some u, base64 := Some u, beforeUrl := url ci\<rparr>"
  "currentImage (castMagicHand_then env ci (Inr u) s) =
     ci\<lparr>url := Some u, base64 := Some u, beforeUrl := url ci\<rparr>"
  "currentImage (handleUpscale4K_then env ci (Inr u) s) =
     \<lparr>url = Some u, base64 = Some u, beforeUrl = url ci, resolution = ''4K'',
      isUpscaled = True, upscaleType = Some Pro_4K\<rparr>"
  by (simp_all add: handleGenerate_then_def handleEdit_then_def handleRemoveWatermark_then_def
      castMagicHand_then_def handleUpscale4K_then_def addToHistory_def addResult_def)

subsection \<open>Batch processing\<close>

text \<open>
  A run of \<^verbatim>\<open>handleBatchUpscale\<close> that no other event interrupts: with three entries,
  where the call for the second fails and the other two succeed, one call is pending
  at a time, for the entries in the order of the array, and at the end the statuses are
  done, error, done, the message is on the second entry only and the mode is
  \<^verbatim>\<open>IDLE\<close>.
\<close>

lemma batch_alone_second_of_three_fails:
  "let s0 = step png0 env0 Click_Upscale_All three_loaded_app;
       s1 = step png0 env0 (Settled 0 (Image_outcome (Inr ''data:A''))) s0;
       s2 = step png0 env0
              (Settled 0 (Image_outcome (Inl (JsError (Some ''quota exceeded''))))) s1;
       s3 = step png0 env0 (Settled 0 (Image_outcome (Inr ''data:C''))) s2
   in pending s0 = [UpscaleFree_call [1, 2, 3] 0]
      \<and> pending s1 = [UpscaleFree_call [1, 2, 3] 1]
      \<and> pending s2 = [UpscaleFree_call [1, 2, 3] 2]
      \<and> pending s3 = []
      \<and> s3 = run png0 trace_batch_alone App_init
      \<and> map b_status (queue s3) = [Status_done, Status_error, Status_done]
      \<and> map b_error (queue s3) = [None, Some ''quota exceeded'', None]
      \<and> map b_base64 (queue s3) = [''data:A'', ''data:b'', ''data:C'']
      \<and> mode s3 = IDLE"
  by (simp add: trace_batch_alone_def run_append three_loaded_state env0_def
      three_loaded_app_def queue_item_def handler_defs)

text \<open>
  C8. The claim fails on the code, by the same defect as C1: the \<^verbatim>\<open>Crop\<close> button of a
  library entry is not disabled while a call is pending. With three entries in the
  queue, after \<^verbatim>\<open>Upscale All\<close> and the success of the first call, a click on that
  button and on \<^verbatim>\<open>Discard Changes\<close> sets the mode to \<^verbatim>\<open>IDLE\<close> while the call for the
  second entry is pending, and \<^verbatim>\<open>Upscale All\<close> starts a second loop over the same
  objects: two calls for the second entry are pending at once. When the first of them
  fails and the other succeeds, the second entry is done and carries the error message,
  and two calls for the third entry are pending.
\<close>

theorem second_batch_loop_while_first_awaits:
  "let s = run png0 trace_two_loops App_init;
       s1 = step png0 env0
              (Settled 0 (Image_outcome (Inl (JsError (Some ''quota exceeded''))))) s;
       s2 = step png0 env0 (Settled 0 (Image_outcome (Inr ''data:B''))) s1
   in mode s = BATCH_PROCESSING
      \<and> map b_status (queue s) = [Status_done, Status_processing, Status_idle]
      \<and> pending s = [UpscaleFree_call [1, 2, 3] 1, UpscaleFree_call [1, 2, 3] 1]
      \<and> map b_status (queue s1) = [Status_done, Status_error, Status_processing]
      \<and> pending s1 = [UpscaleFree_call [1, 2, 3] 1, UpscaleFree_call [1, 2, 3] 2]
      \<and> map b_status (queue s2) = [Status_done, Status_done, Status_processing]
      \<and> map b_error (queue s2) = [None, Some ''quota exceeded'', None]
      \<and> pending s2 = [UpscaleFree_call [1, 2, 3] 2, UpscaleFree_call [1, 2, 3] 2]"
  by (simp add: trace_two_loops_def run_append three_loaded_state env0_def
      three_loaded_app_def queue_item_def handler_defs)

subsection \<open>Entering crop mode while a call is pending\<close>

text \<open>
  The zoom viewer, the crop of the current image and the mask editor are entered
  from \<^verbatim>\<open>IDLE\<close> only: in any other mode their controls do nothing.
\<close>

lemma guarded_entries_need_idle:
  assumes "mode s \<noteq> IDLE"
  shows "step png env Click_Zoom_Viewer s = s"
    and "step png env Click_image s = s"
    and "step png env Click_Advanced_Crop s = s"
    and "step png env Click_Magic_Hand s = s"
  using assms by (simp_all add: toolbar_shown_def)

text \<open>
  C1. The claim fails on the code. The \<^verbatim>\<open>Crop\<close> button of a library entry (line 804)
  calls \<^verbatim>\<open>startCrop\<close> whatever the mode, and \<^verbatim>\<open>startCrop\<close> does not test the mode.
  After a file was loaded and upscaled (which puts an entry in the library), a prompt
  typed and \<^verbatim>\<open>Generate\<close> clicked, the mode is \<^verbatim>\<open>GENERATING\<close> and the call of
  \<^verbatim>\<open>generateImage\<close> is pending; a click on \<^verbatim>\<open>Crop\<close> then sets the mode to
  \<^verbatim>\<open>CROPPING\<close> while the call is still pending: two of the four activities at once,
  and crop mode entered from a mode other than \<^verbatim>\<open>IDLE\<close>.
\<close>

theorem crop_entered_while_generating:
  "let s6 = run png0 trace_generating App_init;
       s7 = step png0 env0 (Click_result_Crop 0) s6
   in mode s6 = GENERATING \<and> pending s6 = [GenerateImage_call ''cat'']
      \<and> mode s7 = CROPPING \<and> pending s7 = [GenerateImage_call ''cat'']
      \<and> external_call_pending s7 \<and> active_count s7 = 2"
  by (simp add: trace_generating_def run_append loaded_state env0_def loaded_app_def
      loaded_image_def queue_item_def external_call_pending_def active_count_def handler_defs)

subsection \<open>A failed mask erase\<close>

lemma list_all_without:
  "list_all P xs \<Longrightarrow> list_all P (take k xs @ drop (Suc k) xs)"
  by (auto simp: list_all_iff dest: in_set_takeD in_set_dropD)

lemma stuck_in_error_settle:
  assumes "is_file_read c" and "settle png env c out s = Some s1"
  shows "mode s1 = mode s \<and> results s1 = results s \<and> pending s1 = pending s"
  using assms
  by (cases c; cases out) (auto simp: settle_def handleFileUpload_onloadend_def Let_def)

lemma stuck_in_error_step:
  assumes "stuck_in_error s"
  shows "stuck_in_error (step png env ev s)"
proof (cases ev)
  case (Settled k out)
  show ?thesis
  proof (cases "k < length (pending s)")
    case False
    with assms Settled show ?thesis by simp
  next
    case True
    let ?s = "s\<lparr>pending := take k (pending s) @ drop (Suc k) (pending s)\<rparr>"
    have rest: "stuck_in_error ?s"
      using assms list_all_without [of is_file_read "pending s" k]
      by (simp add: stuck_in_error_def)
    have c: "is_file_read (pending s ! k)"
      using assms True by (simp add: stuck_in_error_def list_all_length)
    show ?thesis
    proof (cases "settle png env (pending s ! k) out ?s")
      case None
      with assms Settled True show ?thesis by simp
    next
      case (Some s1)
      from stuck_in_error_settle [OF c Some] rest have "stuck_in_error s1"
        by (simp add: stuck_in_error_def)
      with Settled True Some show ?thesis by simp
    qed
  qed
next
  case (Choose_files n)
  with assms show ?thesis
    by (auto simp: stuck_in_error_def handleFileUpload_def list_all_iff)
qed (use assms in \<open>simp_all add: stuck_in_error_def toolbar_shown_def zoom_modal_shown_def
      removeFromBatch_def handleZoomMouseUp_def executeCrop_def Let_def\<close>)

lemma stuck_in_error_run: "stuck_in_error s \<Longrightarrow> stuck_in_error (run png evs s)"
proof (induction evs arbitrary: s)
  case Nil
  then show ?case by simp
next
  case (Cons e evs)
  obtain env ev where e: "e = (env, ev)" by (cases e)
  from Cons.prems have "stuck_in_error (step png env ev s)" by (rule stuck_in_error_step)
  then show ?case using Cons.IH e by simp
qed

text \<open>
  When its call fails, each of \<^verbatim>\<open>handleGenerate\<close>, \<^verbatim>\<open>handleEdit\<close>,
  \<^verbatim>\<open>handleRemoveWatermark\<close> and \<^verbatim>\<open>handleUpscale4K\<close> records a message and ends in
  the mode \<^verbatim>\<open>IDLE\<close>; \<^verbatim>\<open>castMagicHand\<close> records a message and ends in the mode
  \<^verbatim>\<open>ERROR\<close>.
\<close>

lemma failed_call_returns_to_idle:
  "mode (handleGenerate_then env p (Inl err) s) = IDLE"
  "error (handleGenerate_then env p (Inl err) s) =
     Some (or_else (message err) ''Failed to generate image'')"
  "mode (handleEdit_then env ci p (Inl err) s) = IDLE"
  "error (handleEdit_then env ci p (Inl err) s) = Some (or_else (message err) ''Failed to edit'')"
  "mode (handleRemoveWatermark_then env ci (Inl err) s) = IDLE"
  "error (handleRemoveWatermark_then env ci (Inl err) s) =
     Some (or_else (message err) ''Failed to remove watermark'')"
  "mode (handleUpscale4K_catch err s) = IDLE"
  "error (handleUpscale4K_catch err s) = Some (or_else (message err) ''Failed to upscale to 4K'')"
  by (simp_all add: handleGenerate_then_def handleEdit_then_def handleRemoveWatermark_then_def
      handleUpscale4K_catch_def)

lemma failed_erase_ends_in_error:
  "mode (castMagicHand_then env ci (Inl err) s) = ERROR"
  "error (castMagicHand_then env ci (Inl err) s) = Some (or_else (message err) ''Magic Hand failed'')"
  by (simp_all add: castMagicHand_then_def)

text \<open>
  C2. The claim fails on the code for \<^verbatim>\<open>castMagicHand\<close>, whose \<^verbatim>\<open>catch\<close> block sets
  the mode to \<^verbatim>\<open>ERROR\<close> and which has no \<^verbatim>\<open>finally\<close> block. After a file was loaded,
  the mask editor opened and \<^verbatim>\<open>Execute Erase\<close> clicked, a failure of the call leaves
  the mode \<^verbatim>\<open>ERROR\<close> with the message recorded; dismissing the banner clears the
  message and leaves the mode \<^verbatim>\<open>ERROR\<close>; and from there no sequence of events
  changes the mode again.
\<close>

theorem erase_failure_leaves_error_mode:
  "(let s5 = run png0 trace_erase_failed App_init;
        s6 = step png0 env0 Click_error_dismiss s5
    in mode s5 = ERROR \<and> error s5 = Some ''quota exceeded'' \<and> pending s5 = []
       \<and> mode s6 = ERROR \<and> error s6 = None \<and> pending s6 = [] \<and> results s6 = [])
   \<and> (\<forall>evs. mode (run png0 evs
                  (step png0 env0 Click_error_dismiss (run png0 trace_erase_failed App_init)))
              = ERROR)"
proof -
  have ev: "let s5 = run png0 trace_erase_failed App_init;
        s6 = step png0 env0 Click_error_dismiss s5
    in mode s5 = ERROR \<and> error s5 = Some ''quota exceeded'' \<and> pending s5 = []
       \<and> mode s6 = ERROR \<and> error s6 = None \<and> pending s6 = [] \<and> results s6 = []"
    by (simp add: trace_erase_failed_def run_append loaded_state env0_def loaded_app_def
        loaded_image_def queue_item_def handler_defs)
  have "stuck_in_error
      (step png0 env0 Click_error_dismiss (run png0 trace_erase_failed App_init))"
    by (simp add: stuck_in_error_def trace_erase_failed_def run_append loaded_state env0_def
        loaded_app_def loaded_image_def queue_item_def handler_defs)
  then have "stuck_in_error (run png0 evs
      (step png0 env0 Click_error_dismiss (run png0 trace_erase_failed App_init)))" for evs
    by (rule stuck_in_error_run)
  then show ?thesis
    using ev by (simp add: stuck_in_error_def)
qed

subsection \<open>Resizing from the top left handle\<close>

text \<open>
  With the ratio 1:1 and the top left handle the new box is square, its bottom edge
  stays where it was, and its right edge stays where it was unless the box had to be
  cut off at the top.
\<close>

lemma tl_locked_is_square:
  "sw (snd (handleCropMouseMove_corner H_tl Ratio_1_1 p z mx my)) =
   sh (snd (handleCropMouseMove_corner H_tl Ratio_1_1 p z mx my))"
  by (simp add: handleCropMouseMove_corner_def targetRatio_def Let_def)

lemma tl_locked_pins_bottom:
  assumes "py p + sh z / 2 \<le> 100"
  shows "py (fst (handleCropMouseMove_corner H_tl Ratio_1_1 p z mx my))
           + sh (snd (handleCropMouseMove_corner H_tl Ratio_1_1 p z mx my)) / 2
         = py p + sh z / 2"
  using assms by (simp add: handleCropMouseMove_corner_def targetRatio_def Let_def)

lemma tl_locked_pins_right_unless_clamped:
  assumes "py p + sh z / 2 \<le> 100"
    and "px p + sw z / 2 - min (px p + sw z / 2 - 5) (max 0 mx) \<le> py p + sh z / 2"
  shows "px (fst (handleCropMouseMove_corner H_tl Ratio_1_1 p z mx my))
           + sw (snd (handleCropMouseMove_corner H_tl Ratio_1_1 p z mx my)) / 2
         = px p + sw z / 2"
  using assms by (simp add: handleCropMouseMove_corner_def targetRatio_def Let_def)

text \<open>
  C4. The claim fails on the code where the box is cut off at the top: the width is
  derived again from the height, and the left edge, not the right one, is kept. With
  the square box of centre (50, 20) and size (40, 40), whose bottom right corner is
  (70, 40), dragging the top left handle to (10, 0) gives the square box of centre
  (30, 20) and size (40, 40), whose bottom right corner is (50, 40).
\<close>

theorem tl_resize_moves_br_corner:
  "let s = run png0 trace_tl_at_top App_init;
       s1 = step png0 env0 (Crop_mouse_move 10 0) s
   in mode s = CROPPING \<and> cropRatio s = Ratio_1_1 \<and> activeHandle s = Some H_tl
      \<and> cropPos s = \<lparr>px = 50, py = 20\<rparr> \<and> cropSize s = \<lparr>sw = 40, sh = 40\<rparr>
      \<and> crop_right s = 70 \<and> crop_bottom s = 40
      \<and> cropPos s1 = \<lparr>px = 30, py = 20\<rparr> \<and> cropSize s1 = \<lparr>sw = 40, sh = 40\<rparr>
      \<and> crop_right s1 = 50 \<and> crop_bottom s1 = 40"
  by (simp add: trace_tl_at_top_def run_append loaded_state env0_def loaded_app_def
      loaded_image_def queue_item_def crop_right_def crop_bottom_def handler_defs)

subsection \<open>Undo and redo after a drag\<close>

text \<open>
  Undo followed by redo gives back the state when the region is the entry of the
  history at the index.
\<close>

lemma undo_redo_of_pushed_region:
  assumes "0 < cropHistoryIndex s" and "cropHistoryIndex s < int (length (cropHistory s))"
    and "js_index (cropHistory s) (cropHistoryIndex s) =
           Some \<lparr>cs_pos = cropPos s, cs_size = cropSize s, cs_ratio = cropRatio s\<rparr>"
  shows "redoCrop (undoCrop s) = s"
  using assms by (simp add: undoCrop_def redoCrop_def js_index_def split: if_splits)

text \<open>
  C9. The claim fails on the code in a state the user reaches by dragging the crop
  box: \<^verbatim>\<open>handleCropMouseMove\<close> changes the region without a push, and
  \<^verbatim>\<open>handleHandleUp\<close>, which would push it when the handle is released, is bound to no
  element. After the ratio was set to 16:9 (index 1) and the box dragged to (60, 60),
  undo followed by redo gives back the index 1, the size and the ratio, and the
  position (50, 50) of the history entry instead of (60, 60).
\<close>

theorem undo_redo_loses_dragged_region:
  "let s = run png0 trace_dragged App_init;
       s2 = step png0 env0 Click_Redo (step png0 env0 Click_Undo s)
   in mode s = CROPPING \<and> cropHistoryIndex s = 1 \<and> length (cropHistory s) = 2
      \<and> cropPos s = \<lparr>px = 60, py = 60\<rparr> \<and> cropSize s = \<lparr>sw = 60, sh = 33.75\<rparr>
      \<and> cropRatio s = Ratio_16_9
      \<and> cropHistoryIndex s2 = 1
      \<and> cropPos s2 = \<lparr>px = 50, py = 50\<rparr> \<and> cropSize s2 = \<lparr>sw = 60, sh = 33.75\<rparr>
      \<and> cropRatio s2 = Ratio_16_9"
  by (simp add: trace_dragged_def run_append loaded_state env0_def loaded_app_def
      loaded_image_def queue_item_def handler_defs)

subsection \<open>The zoom scale\<close>

lemma zoomScale_batch_from: "zoomScale (handleBatchUpscale_from i uq s) = zoomScale s"
proof (induction i uq s rule: handleBatchUpscale_from.induct)
  case (1 i uq s)
  then show ?case
    by (subst handleBatchUpscale_from.simps) (simp add: Let_def)
qed

lemma zoomScale_batch_item:
  "zoomScale (handleBatchUpscale_item env i out uq s) = zoomScale s"
  by (simp add: handleBatchUpscale_item_def addResult_def Let_def split: sum.splits)

lemma zoomScale_batch_then:
  "zoomScale (handleBatchUpscale_then env uq i out s) = zoomScale s"
  by (simp add: handleBatchUpscale_then_def zoomScale_batch_from zoomScale_batch_item)

lemma zoomScale_handlers:
  "zoomScale (handleFileUpload n s) = zoomScale s"
  "zoomScale (handleFileUpload_onloadend env ci b s) = zoomScale s"
  "zoomScale (handleGenerate s) = zoomScale s"
  "zoomScale (handleGenerate_then env p out s) = zoomScale s"
  "zoomScale (handleEdit s) = zoomScale s"
  "zoomScale (handleEdit_then env ci p out s) = zoomScale s"
  "zoomScale (handleRemoveWatermark s) = zoomScale s"
  "zoomScale (handleRemoveWatermark_then env ci out s) = zoomScale s"
  "zoomScale (startMagicHand s) = zoomScale s"
  "zoomScale (castMagicHand s) = zoomScale s"
  "zoomScale (castMagicHand_then env ci out s) = zoomScale s"
  "zoomScale (handleUpscale4K env s) = zoomScale s"
  "zoomScale (handleUpscale4K_hasKey ci hk s) = zoomScale s"
  "zoomScale (handleUpscale4K_openKey ci ok s) = zoomScale s"
  "zoomScale (handleUpscale4K_then env ci out s) = zoomScale s"
  "zoomScale (handleUpscale4K_openKey_in_catch err ok s) = zoomScale s"
  "zoomScale (removeFromBatch k s) = zoomScale s"
  "zoomScale (handleBatchUpscale s) = zoomScale s"
  "zoomScale (startCrop item s) = zoomScale s"
  "zoomScale (updateCropBox r s) = zoomScale s"
  "zoomScale (undoCrop s) = zoomScale s"
  "zoomScale (redoCrop s) = zoomScale s"
  "zoomScale (handleCropMouseMove mx my s) = zoomScale s"
  "zoomScale (executeCrop_onload png env realW realH c s) = zoomScale s"
  "zoomScale (handleZoomMouseDown s) = zoomScale s"
  "zoomScale (handleZoomMouseMove mx my s) = zoomScale s"
  "zoomScale (handleZoomMouseUp s) = zoomScale s"
  by (simp_all add: handleFileUpload_def handleFileUpload_onloadend_def handleGenerate_def
      handleGenerate_then_def handleEdit_def handleEdit_then_def handleRemoveWatermark_def
      handleRemoveWatermark_then_def startMagicHand_def castMagicHand_def castMagicHand_then_def
      handleUpscale4K_def handleUpscale4K_hasKey_def handleUpscale4K_openKey_def
      handleUpscale4K_then_def handleUpscale4K_openKey_in_catch_def handleUpscale4K_upscale_def
      handleUpscale4K_catch_def removeFromBatch_def handleBatchUpscale_def
      zoomScale_batch_from startCrop_def
      updateCropBox_def pushCropHistory_def undoCrop_def redoCrop_def handleCropMouseMove_def
      executeCrop_onload_def addResult_def addToHistory_def handleZoomMouseDown_def
      handleZoomMouseMove_def handleZoomMouseUp_def Let_def
      split: sum.splits option.splits prod.splits)

lemma zoomScale_settle:
  "settle png env c out s = Some s1 \<Longrightarrow> zoomScale s1 = zoomScale s"
  by (auto simp: settle_def zoomScale_handlers zoomScale_batch_then
      split: Call.splits Outcome.splits option.splits prod.splits)

lemma zoom_in_range_step:
  assumes "zoom_in_range s"
  shows "zoom_in_range (step png env ev s)"
proof (cases ev)
  case (Settled k out)
  show ?thesis
  proof (cases "k < length (pending s)")
    case False
    with assms Settled show ?thesis by simp
  next
    case True
    show ?thesis
    proof (cases "settle png env (pending s ! k) out
                    (s\<lparr>pending := take k (pending s) @ drop (Suc k) (pending s)\<rparr>)")
      case None
      with assms Settled True show ?thesis by simp
    next
      case (Some s1)
      from zoomScale_settle [OF Some] have "zoomScale s1 = zoomScale s" by simp
      with assms Settled True Some show ?thesis by (simp add: zoom_in_range_def)
    qed
  qed
qed (use assms in \<open>auto simp add: zoom_in_range_def zoomScale_handlers startZoom_def
      handleZoomWheel_def zoomOut_onClick_def resetZoom_onClick_def zoomIn_onClick_def
      Let_def max_def min_def split: option.splits\<close>)

lemma zoom_in_range_run: "zoom_in_range s \<Longrightarrow> zoom_in_range (run png evs s)"
proof (induction evs arbitrary: s)
  case Nil
  then show ?case by simp
next
  case (Cons e evs)
  obtain env ev where e: "e = (env, ev)" by (cases e)
  from Cons.prems have "zoom_in_range (step png env ev s)" by (rule zoom_in_range_step)
  then show ?case using Cons.IH e by simp
qed

text \<open>
  From a state with the zoom scale in [0.5, 10], as the initial state is, the scale is
  in [0.5, 10] after every sequence of events, so after every sequence of wheel turns
  and clicks on the zoom buttons.
\<close>

lemma zoom_scale_stays_in_range:
  assumes "0.5 \<le> zoomScale s" and "zoomScale s \<le> 10"
  shows "0.5 \<le> zoomScale (run png evs s) \<and> zoomScale (run png evs s) \<le> 10"
proof -
  have "zoom_in_range s" using assms by (simp add: zoom_in_range_def)
  then have "zoom_in_range (run png evs s)" by (rule zoom_in_range_run)
  then show ?thesis by (simp add: zoom_in_range_def)
qed

text \<open>
  C5. The claim fails on the code in its second half: the reset button (line 832) sets
  the scale and not the translate vector, which \<^verbatim>\<open>startZoom\<close> sets to (0, 0) together
  with the scale. After the viewer was opened, zoomed in to 1.5, panned by (30, 40) and
  the mouse button released, the reset button sets the scale to 1 and the translate
  vector is still (30, 40); and since panning starts only at a scale above 1, pressing
  and moving the mouse leaves it there.
\<close>

theorem reset_zoom_keeps_translate:
  "let s = run png0 trace_panned App_init;
       s1 = step png0 env0 Click_zoom_Reset s;
       s2 = step png0 env0 (Zoom_mouse_move 5 5) (step png0 env0 Zoom_mouse_down s1)
   in mode s = ZOOMING \<and> zoomScale s = 1.5 \<and> zoomTranslate s = \<lparr>px = 30, py = 40\<rparr>
      \<and> s1 = resetZoom_onClick s
      \<and> mode s1 = ZOOMING \<and> \<not> isPanning s1
      \<and> zoomScale s1 = 1 \<and> zoomTranslate s1 = \<lparr>px = 30, py = 40\<rparr>
      \<and> zoomTranslate s1 \<noteq> \<lparr>px = 0, py = 0\<rparr>
      \<and> zoomTranslate s2 = \<lparr>px = 30, py = 40\<rparr>
      \<and> zoomTranslate (startZoom s) = \<lparr>px = 0, py = 0\<rparr>"
  by (simp add: trace_panned_def run_append loaded_state env0_def loaded_app_def
      loaded_image_def queue_item_def handler_defs)

end
